theory Spec2Isabelle
  imports Main "HOL-Library.Word"
begin

section \<open>GpuShaderDesc.cpp: the shader descriptor of OpenColorIO\<close>

text \<open>
  A shallow embedding of \<^verbatim>\<open>src/OpenColorIO/GpuShaderDesc.cpp\<close>. The private state
  \<^verbatim>\<open>GpuShaderCreator::Impl\<close> is a record that every method takes and returns; a method
  that throws returns \<open>Throws\<close> together with the state it leaves behind, and a method that
  runs into undefined behaviour (a null or dangling pointer) returns \<open>Undefined\<close> or \<open>None\<close>.
  The mutex \<^verbatim>\<open>m_cacheIDMutex\<close> only serialises threads and has no sequential effect, so it
  is left out; the debug logging at the end of \<^verbatim>\<open>finalize\<close> writes to a sink and changes no
  state, so it is left out as well.
\<close>

subsection \<open>Types declared outside the file\<close>

text \<open>
  Modelled from the spec: the enumeration \<^verbatim>\<open>GpuLanguage\<close> is declared in the public header,
  which is absent. The file names three of its tags; every other tag (the spec's default
  family) behaves alike in this file and is \<open>GPU_LANGUAGE_OTHER\<close> with its number.
\<close>

datatype GpuLanguage =
    GPU_LANGUAGE_GLSL_1_2
  | GPU_LANGUAGE_MSL_METAL
  | LANGUAGE_OSL_1
  | GPU_LANGUAGE_OTHER nat

text \<open>
  A dynamic property (\<^verbatim>\<open>DynamicProperty.h\<close>, absent) is used here through \<^verbatim>\<open>getType()\<close>
  only. Its type tag \<open>'t\<close> and its value \<open>'v\<close> are left open. A \<^verbatim>\<open>DynamicPropertyRcPtr\<close> is
  a shared pointer and may be null: it is an \<open>option\<close>.
\<close>

record ('t, 'v) DynamicProperty =
  getType :: 't
  dp_value :: 'v

type_synonym ('t, 'v) DynamicPropertyRcPtr = "('t, 'v) DynamicProperty option"

text \<open>A raw owning pointer: null, pointing to a live object, or left behind by \<^verbatim>\<open>delete\<close>.\<close>

datatype 'a pointer = nullptr | Owned 'a | Dangling

definition deref :: "'a pointer \<Rightarrow> 'a option" where
  "deref p = (case p of Owned a \<Rightarrow> Some a | _ \<Rightarrow> None)"

text \<open>
  The three \<^verbatim>\<open>throw Exception(...)\<close> sites of the file, with the values their messages
  print: "Dynamic property already here: <type>.", "Dynamic properties access error:
  index = <index> where size = <size>" and "Dynamic property not found.".
\<close>

datatype 't Exception =
    DynamicPropertyAlreadyHere 't
  | DynamicPropertiesAccessError nat nat
  | DynamicPropertyNotFound

datatype ('e, 'a, 's) outcome = Returns 'a 's | Throws 'e 's | Undefined

subsection \<open>The services of other files\<close>

text \<open>
  The functions below are defined in files that are absent (\<^verbatim>\<open>ParseUtils.cpp\<close>,
  \<^verbatim>\<open>HashUtils.cpp\<close>, \<^verbatim>\<open>GpuShaderUtils.cpp\<close>); the model takes them as parameters, bundled
  in one record. \<open>flushLine\<close> is what \<^verbatim>\<open>GpuShaderText\<close> writes for one line at an indentation
  level; \<open>hasClassWrapper\<close>, \<open>getDimensions\<close>, \<open>classWrapperHeader\<close> and
  \<open>classWrapperFooter\<close> are the methods of a \<^verbatim>\<open>GpuShaderText\<close>, the first by the language it
  was built for; \<open>'d\<close> is \<^verbatim>\<open>TextureDimensions\<close>. \<open>CacheIDHash\<close> takes the bytes and the
  length it is told to read.
\<close>

record 'd services =
  GpuLanguageToString :: "GpuLanguage \<Rightarrow> string"
  CacheIDHash :: "string \<Rightarrow> nat \<Rightarrow> string"
  flushLine :: "nat \<Rightarrow> string \<Rightarrow> string"
  hasClassWrapper :: "GpuLanguage \<Rightarrow> bool"
  getDimensions :: "string \<Rightarrow> 'd"
  classWrapperHeader :: "string \<Rightarrow> (string \<times> 'd) list \<Rightarrow> string"
  classWrapperFooter :: "string \<Rightarrow> (string \<times> 'd) list \<Rightarrow> string \<Rightarrow> string"
  getTexType :: "GpuLanguage \<Rightarrow> nat \<Rightarrow> string \<Rightarrow> string"
  getSamplerName :: "string \<Rightarrow> string"

text \<open>
  Modelled from the spec: \<^verbatim>\<open>StringUtils::Replace\<close> (\<^verbatim>\<open>utils/StringUtils.h\<close>) is absent.
  The setters call it as \<^verbatim>\<open>Replace(name, "__", "_")\<close> and the spec describes the call as
  the substitution "__" \<rightarrow> "_": the subject is scanned from the left, each occurrence of
  the search string found is replaced, and the scan goes on behind the inserted text.
  An empty search string finds nothing.
\<close>

function Replace :: "string \<Rightarrow> string \<Rightarrow> string \<Rightarrow> string" where
  "Replace [] search replace = []"
| "Replace (c # cs) search replace =
     (if search \<noteq> [] \<and> take (length search) (c # cs) = search
      then replace @ Replace (drop (length search) (c # cs)) search replace
      else c # Replace cs search replace)"
  by pat_completeness auto
termination
  by (relation "measure (\<lambda>(subject, search, replace). length subject)") auto

text \<open>The decimal digits that \<^verbatim>\<open>operator<<\<close> writes for an unsigned number.\<close>

definition digit :: "nat \<Rightarrow> char" where
  "digit d = ''0123456789'' ! d"

function string_of_nat :: "nat \<Rightarrow> string" where
  "string_of_nat n =
     (if n < 10 then [digit n] else string_of_nat (n div 10) @ [digit (n mod 10)])"
  by pat_completeness auto
termination
  by (relation "measure id") auto

declare string_of_nat.simps [simp del]

subsection \<open>MetalClassWrappingInterface\<close>

record MetalClassWrappingInterface =
  m_classWrapHeader :: string
  m_classWrapFooter :: string
  m_classWrapFunctionParams :: "(string \<times> string) list"

definition new_MetalClassWrappingInterface :: MetalClassWrappingInterface where
  "new_MetalClassWrappingInterface =
     \<lparr>m_classWrapHeader = [], m_classWrapFooter = [], m_classWrapFunctionParams = []\<rparr>"

text \<open>
  A \<^verbatim>\<open>const char *\<close> argument is a \<open>string option\<close>, \<open>None\<close> for the null pointer. The test
  \<^verbatim>\<open>(p && *p) ? p : ""\<close> of the appending methods:
\<close>

definition orEmpty :: "string option \<Rightarrow> string" where
  "orEmpty p = (case p of None \<Rightarrow> [] | Some t \<Rightarrow> if t \<noteq> [] then t else [])"

definition addToFunctionParameter ::
  "string \<Rightarrow> string \<Rightarrow> MetalClassWrappingInterface \<Rightarrow> MetalClassWrappingInterface" where
  "addToFunctionParameter type paramName w =
     w\<lparr>m_classWrapFunctionParams := m_classWrapFunctionParams w @ [(type, paramName)]\<rparr>"

definition classWrapHeaderBanner :: string where
  "classWrapHeaderBanner =
     CHR 0x0A # ''// Declaration of class wrapper'' @ [CHR 0x0A, CHR 0x0A]"

definition classWrapFooterBanner :: string where
  "classWrapFooterBanner = CHR 0x0A # ''// close class wrapper'' @ [CHR 0x0A, CHR 0x0A]"

definition addToHeaderShaderCode ::
  "string option \<Rightarrow> MetalClassWrappingInterface \<Rightarrow> MetalClassWrappingInterface" where
  "addToHeaderShaderCode shaderCode w =
     (let h = (if m_classWrapHeader w = [] then m_classWrapHeader w @ classWrapHeaderBanner
               else m_classWrapHeader w)
      in w\<lparr>m_classWrapHeader := h @ orEmpty shaderCode\<rparr>)"

definition addToFooterShaderCode ::
  "string option \<Rightarrow> MetalClassWrappingInterface \<Rightarrow> MetalClassWrappingInterface" where
  "addToFooterShaderCode shaderCode w =
     (let f = (if m_classWrapFooter w = [] then m_classWrapFooter w @ classWrapFooterBanner
               else m_classWrapFooter w)
      in w\<lparr>m_classWrapFooter := f @ orEmpty shaderCode\<rparr>)"

subsection \<open>GpuShaderCreator::Impl\<close>

record ('t, 'v) Impl =
  m_uid :: string
  m_language :: GpuLanguage
  m_functionName :: string
  m_resourcePrefix :: string
  m_pixelName :: string
  m_numResources :: "32 word"
  m_cacheID :: string
  m_declarations :: string
  m_helperMethods :: string
  m_functionHeader :: string
  m_functionBody :: string
  m_functionFooter :: string
  m_shaderCode :: string
  m_shaderCodeID :: string
  m_dynamicProperties :: "('t, 'v) DynamicProperty list"
  m_classWrappingInterface :: "MetalClassWrappingInterface pointer"

text \<open>The constructor \<^verbatim>\<open>Impl()\<close> with the default member initialisers.\<close>

definition new_Impl :: "('t, 'v) Impl" where
  "new_Impl =
     \<lparr>m_uid = [], m_language = GPU_LANGUAGE_GLSL_1_2, m_functionName = ''OCIOMain'',
      m_resourcePrefix = ''ocio'', m_pixelName = ''outColor'', m_numResources = 0,
      m_cacheID = [], m_declarations = [], m_helperMethods = [], m_functionHeader = [],
      m_functionBody = [], m_functionFooter = [], m_shaderCode = [], m_shaderCodeID = [],
      m_dynamicProperties = [], m_classWrappingInterface = nullptr\<rparr>"

text \<open>
  \<^verbatim>\<open>Impl::operator=\<close>: \<open>lhs\<close> is \<^verbatim>\<open>*this\<close>. The test \<^verbatim>\<open>this != &rhs\<close> guards
  self-assignment, which changes nothing but the two cleared fields and cannot be told
  apart by value; \<open>clone\<close>, the only caller, assigns to a new object.
\<close>

definition assign :: "('t, 'v) Impl \<Rightarrow> ('t, 'v) Impl \<Rightarrow> ('t, 'v) Impl" where
  "assign lhs rhs =
     lhs\<lparr>m_uid := m_uid rhs, m_language := m_language rhs,
         m_functionName := m_functionName rhs, m_resourcePrefix := m_resourcePrefix rhs,
         m_pixelName := m_pixelName rhs, m_numResources := m_numResources rhs,
         m_cacheID := m_cacheID rhs,
         m_declarations := m_declarations rhs, m_helperMethods := m_helperMethods rhs,
         m_functionHeader := m_functionHeader rhs, m_functionBody := m_functionBody rhs,
         m_functionFooter := m_functionFooter rhs,
         m_shaderCode := [], m_shaderCodeID := []\<rparr>"

subsection \<open>Configuration\<close>

definition setUniqueID :: "string option \<Rightarrow> ('t, 'v) Impl \<Rightarrow> ('t, 'v) Impl" where
  "setUniqueID uid s =
     s\<lparr>m_uid := (case uid of Some u \<Rightarrow> u | None \<Rightarrow> []), m_cacheID := []\<rparr>"

definition getUniqueID :: "('t, 'v) Impl \<Rightarrow> string" where
  "getUniqueID s = m_uid s"

text \<open>
  \<^verbatim>\<open>setLanguage\<close> deletes the wrapper it finds and does not reset the pointer: unless the
  new language is Metal the pointer is left dangling, and the next \<^verbatim>\<open>delete\<close> of it is
  undefined behaviour (\<open>None\<close>).
\<close>

definition setLanguage :: "GpuLanguage \<Rightarrow> ('t, 'v) Impl \<Rightarrow> ('t, 'v) Impl option" where
  "setLanguage lang s =
     (case m_classWrappingInterface s of
        Dangling \<Rightarrow> None
      | p \<Rightarrow>
          (let p' = (case p of nullptr \<Rightarrow> nullptr | _ \<Rightarrow> Dangling);
               s1 = s\<lparr>m_language := lang, m_classWrappingInterface := p'\<rparr>;
               s2 = (if lang = GPU_LANGUAGE_MSL_METAL
                     then s1\<lparr>m_functionName := ''Display'',
                             m_classWrappingInterface := Owned new_MetalClassWrappingInterface\<rparr>
                     else s1)
           in Some (s2\<lparr>m_cacheID := []\<rparr>)))"

definition getLanguage :: "('t, 'v) Impl \<Rightarrow> GpuLanguage" where
  "getLanguage s = m_language s"

text \<open>
  The three name setters build a \<^verbatim>\<open>std::string\<close> from their argument before anything
  else; from a null pointer that is undefined behaviour (\<open>None\<close>).
\<close>

definition setFunctionName :: "string option \<Rightarrow> ('t, 'v) Impl \<Rightarrow> ('t, 'v) Impl option" where
  "setFunctionName name s =
     (case name of
        None \<Rightarrow> None
      | Some n \<Rightarrow> Some (s\<lparr>m_functionName := Replace n ''__'' ''_'', m_cacheID := []\<rparr>))"

definition getFunctionName :: "('t, 'v) Impl \<Rightarrow> string" where
  "getFunctionName s = m_functionName s"

definition setResourcePrefix :: "string option \<Rightarrow> ('t, 'v) Impl \<Rightarrow> ('t, 'v) Impl option" where
  "setResourcePrefix prefix s =
     (case prefix of
        None \<Rightarrow> None
      | Some n \<Rightarrow> Some (s\<lparr>m_resourcePrefix := Replace n ''__'' ''_'', m_cacheID := []\<rparr>))"

definition getResourcePrefix :: "('t, 'v) Impl \<Rightarrow> string" where
  "getResourcePrefix s = m_resourcePrefix s"

definition setPixelName :: "string option \<Rightarrow> ('t, 'v) Impl \<Rightarrow> ('t, 'v) Impl option" where
  "setPixelName name s =
     (case name of
        None \<Rightarrow> None
      | Some n \<Rightarrow> Some (s\<lparr>m_pixelName := Replace n ''__'' ''_'', m_cacheID := []\<rparr>))"

definition getPixelName :: "('t, 'v) Impl \<Rightarrow> string" where
  "getPixelName s = m_pixelName s"

subsection \<open>Resource indices\<close>

text \<open>\<^verbatim>\<open>return m_numResources++\<close> on an \<^verbatim>\<open>unsigned\<close>: the old value, and the counter plus one
  modulo \<open>2 ^ 32\<close>.\<close>

definition getNextResourceIndex :: "('t, 'v) Impl \<Rightarrow> 32 word \<times> ('t, 'v) Impl" where
  "getNextResourceIndex s = (m_numResources s, s\<lparr>m_numResources := m_numResources s + 1\<rparr>)"

subsection \<open>Dynamic properties\<close>

fun hasType :: "('t, 'v) DynamicProperty list \<Rightarrow> 't \<Rightarrow> bool" where
  "hasType [] type = False"
| "hasType (dp # dps) type = (if getType dp = type then True else hasType dps type)"

definition hasDynamicProperty :: "'t \<Rightarrow> ('t, 'v) Impl \<Rightarrow> bool" where
  "hasDynamicProperty type s = hasType (m_dynamicProperties s) type"

definition addDynamicProperty ::
  "('t, 'v) DynamicPropertyRcPtr \<Rightarrow> ('t, 'v) Impl \<Rightarrow> ('t Exception, unit, ('t, 'v) Impl) outcome" where
  "addDynamicProperty prop s =
     (case prop of
        None \<Rightarrow> Undefined
      | Some p \<Rightarrow>
          if hasDynamicProperty (getType p) s
          then Throws (DynamicPropertyAlreadyHere (getType p)) s
          else Returns () (s\<lparr>m_dynamicProperties := m_dynamicProperties s @ [p]\<rparr>))"

text \<open>\<^verbatim>\<open>(unsigned) size()\<close> keeps the low 32 bits of the size.\<close>

definition getNumDynamicProperties :: "('t, 'v) Impl \<Rightarrow> 32 word" where
  "getNumDynamicProperties s = word_of_nat (length (m_dynamicProperties s))"

definition getDynamicProperty_index ::
  "32 word \<Rightarrow> ('t, 'v) Impl \<Rightarrow> ('t Exception, ('t, 'v) DynamicProperty, ('t, 'v) Impl) outcome" where
  "getDynamicProperty_index index s =
     (if index \<ge> word_of_nat (length (m_dynamicProperties s))
      then Throws (DynamicPropertiesAccessError (unat index) (length (m_dynamicProperties s))) s
      else Returns (m_dynamicProperties s ! unat index) s)"

fun findType :: "('t, 'v) DynamicProperty list \<Rightarrow> 't \<Rightarrow> ('t, 'v) DynamicProperty option" where
  "findType [] type = None"
| "findType (dp # dps) type = (if getType dp = type then Some dp else findType dps type)"

definition getDynamicProperty_type ::
  "'t \<Rightarrow> ('t, 'v) Impl \<Rightarrow> ('t Exception, ('t, 'v) DynamicProperty, ('t, 'v) Impl) outcome" where
  "getDynamicProperty_type type s =
     (case findType (m_dynamicProperties s) type of
        Some dp \<Rightarrow> Returns dp s
      | None \<Rightarrow> Throws DynamicPropertyNotFound s)"

subsection \<open>The cache identifier\<close>

text \<open>The string that \<^verbatim>\<open>getCacheID\<close> streams into \<^verbatim>\<open>os\<close> when the cache is empty.\<close>

definition composeCacheID :: "'d services \<Rightarrow> ('t, 'v) Impl \<Rightarrow> string" where
  "composeCacheID U s =
     GpuLanguageToString U (m_language s) @ '' '' @
     m_functionName s @ '' '' @
     m_resourcePrefix s @ '' '' @
     m_pixelName s @ '' '' @
     string_of_nat (unat (m_numResources s)) @ '' '' @
     m_shaderCodeID s"

text \<open>\<^verbatim>\<open>m_cacheID\<close> is \<^verbatim>\<open>mutable\<close>: the getter returns the string and the updated state.\<close>

definition getCacheID ::
  "'d services \<Rightarrow> ('t, 'v) Impl \<Rightarrow> string \<times> ('t, 'v) Impl" where
  "getCacheID U s =
     (let s' = (if m_cacheID s = [] then s\<lparr>m_cacheID := composeCacheID U s\<rparr> else s)
      in (m_cacheID s', s'))"

subsection \<open>Accumulating shader text\<close>

definition declarationsBanner :: string where
  "declarationsBanner =
     CHR 0x0A # ''// Declaration of all variables'' @ [CHR 0x0A, CHR 0x0A]"

definition helperMethodsBanner :: string where
  "helperMethodsBanner =
     CHR 0x0A # ''// Declaration of all helper methods'' @ [CHR 0x0A, CHR 0x0A]"

definition addToDeclareShaderCode :: "string option \<Rightarrow> ('t, 'v) Impl \<Rightarrow> ('t, 'v) Impl" where
  "addToDeclareShaderCode shaderCode s =
     (let d = (if m_declarations s = [] then m_declarations s @ declarationsBanner
               else m_declarations s)
      in s\<lparr>m_declarations := d @ orEmpty shaderCode\<rparr>)"

definition addToHelperShaderCode :: "string option \<Rightarrow> ('t, 'v) Impl \<Rightarrow> ('t, 'v) Impl" where
  "addToHelperShaderCode shaderCode s =
     (let h = (if m_helperMethods s = [] then m_helperMethods s @ helperMethodsBanner
               else m_helperMethods s)
      in s\<lparr>m_helperMethods := h @ orEmpty shaderCode\<rparr>)"

definition addToFunctionShaderCode :: "string option \<Rightarrow> ('t, 'v) Impl \<Rightarrow> ('t, 'v) Impl" where
  "addToFunctionShaderCode shaderCode s =
     s\<lparr>m_functionBody := m_functionBody s @ orEmpty shaderCode\<rparr>"

definition addToFunctionHeaderShaderCode ::
  "string option \<Rightarrow> ('t, 'v) Impl \<Rightarrow> ('t, 'v) Impl" where
  "addToFunctionHeaderShaderCode shaderCode s =
     s\<lparr>m_functionHeader := m_functionHeader s @ orEmpty shaderCode\<rparr>"

definition addToFunctionFooterShaderCode ::
  "string option \<Rightarrow> ('t, 'v) Impl \<Rightarrow> ('t, 'v) Impl" where
  "addToFunctionFooterShaderCode shaderCode s =
     s\<lparr>m_functionFooter := m_functionFooter s @ orEmpty shaderCode\<rparr>"

subsection \<open>Assembling the shader text\<close>

text \<open>
  \<^verbatim>\<open>createShaderText\<close> clears \<^verbatim>\<open>m_shaderCode\<close> and only then reads its \<^verbatim>\<open>const char *\<close>
  arguments, so it matters whether an argument points into \<^verbatim>\<open>m_shaderCode\<close> itself. An
  argument is null, text of the caller's, or the pointer that \<^verbatim>\<open>getShaderText()\<close> returned.
\<close>

datatype const_char_ptr = NullChars | Chars string | ShaderTextChars

text \<open>
  What \<^verbatim>\<open>(p && *p) ? p : ""\<close> reads when \<open>code\<close> is the text appended to \<^verbatim>\<open>m_shaderCode\<close> so
  far. \<^verbatim>\<open>clear()\<close> and \<^verbatim>\<open>+=\<close> keep the buffer as long as the text fits, and the buffer
  fits at least the \<open>capacity\<close> characters it held before the call: until then the pointer of
  \<^verbatim>\<open>getShaderText()\<close> points to the text appended so far. Beyond that the buffer may have
  moved and reading through the pointer is undefined behaviour (\<open>None\<close>).
\<close>

definition readChars :: "nat \<Rightarrow> string \<Rightarrow> const_char_ptr \<Rightarrow> string option" where
  "readChars capacity code p =
     (case p of
        NullChars \<Rightarrow> Some []
      | Chars t \<Rightarrow> Some (if t \<noteq> [] then t else [])
      | ShaderTextChars \<Rightarrow>
          if length code \<le> capacity then Some (if code \<noteq> [] then code else []) else None)"

text \<open>One statement \<^verbatim>\<open>m_shaderCode += (p && *p) ? p : ""\<close>.\<close>

definition appendChars :: "nat \<Rightarrow> const_char_ptr \<Rightarrow> string option \<Rightarrow> string option" where
  "appendChars capacity p r =
     (case r of
        None \<Rightarrow> None
      | Some code \<Rightarrow> map_option (\<lambda>t. code @ t) (readChars capacity code p))"

text \<open>
  For Metal, \<^verbatim>\<open>createShaderText\<close> reads the wrapper through \<^verbatim>\<open>m_classWrappingInterface\<close>
  without a test: a null or dangling pointer there is undefined behaviour (\<open>None\<close>).
  \<^verbatim>\<open>unsigned(length())\<close> keeps the low 32 bits of the length.
\<close>

definition createShaderText ::
  "'d services \<Rightarrow> const_char_ptr \<Rightarrow> const_char_ptr \<Rightarrow> const_char_ptr \<Rightarrow> const_char_ptr \<Rightarrow>
   const_char_ptr \<Rightarrow> ('t, 'v) Impl \<Rightarrow> ('t, 'v) Impl option" where
  "createShaderText U shaderDeclarations shaderHelperMethods shaderFunctionHeader
       shaderFunctionBody shaderFunctionFooter s =
     (case (if getLanguage s = GPU_LANGUAGE_MSL_METAL
            then (case m_classWrappingInterface s of
                    Owned w \<Rightarrow> Some (Chars (m_classWrapHeader w), Chars (m_classWrapFooter w))
                  | _ \<Rightarrow> None)
            else Some (NullChars, NullChars)) of
        None \<Rightarrow> None
      | Some (shaderClassWrapperHeader, shaderClassWrapperFooter) \<Rightarrow>
          (case fold (appendChars (length (m_shaderCode s)))
                  [shaderClassWrapperHeader, shaderDeclarations, shaderHelperMethods,
                   shaderFunctionHeader, shaderFunctionBody, shaderFunctionFooter,
                   shaderClassWrapperFooter]
                  (Some []) of
             None \<Rightarrow> None
           | Some code \<Rightarrow>
               Some (s\<lparr>m_shaderCode := code,
                       m_shaderCodeID := CacheIDHash U code (length code mod 2 ^ 32),
                       m_cacheID := []\<rparr>)))"

subsection \<open>GpuShaderText as this file uses it\<close>

text \<open>
  A \<^verbatim>\<open>GpuShaderText\<close> collects lines: \<^verbatim>\<open>newLine() << a << b\<close> is one line with the text
  \<open>a @ b\<close>, written at the current indentation when the statement ends; \<^verbatim>\<open>indent()\<close> and
  \<^verbatim>\<open>dedent()\<close> move the indentation (every \<^verbatim>\<open>dedent()\<close> of this file follows an
  \<^verbatim>\<open>indent()\<close>). \<open>GpuShaderText_string\<close> is \<^verbatim>\<open>string()\<close> after the statements, starting
  at indentation \<open>i\<close>.
\<close>

datatype GpuShaderText_stmt = newLine string | indent | dedent

fun GpuShaderText_string :: "'d services \<Rightarrow> nat \<Rightarrow> GpuShaderText_stmt list \<Rightarrow> string" where
  "GpuShaderText_string U i [] = []"
| "GpuShaderText_string U i (newLine l # r) = flushLine U i l @ GpuShaderText_string U i r"
| "GpuShaderText_string U i (indent # r) = GpuShaderText_string U (i + 1) r"
| "GpuShaderText_string U i (dedent # r) = GpuShaderText_string U (i - 1) r"

subsection \<open>The class wrapper of Metal\<close>

fun TextureInfoFromParams :: "'d services \<Rightarrow> (string \<times> string) list \<Rightarrow> (string \<times> 'd) list" where
  "TextureInfoFromParams U [] = []"
| "TextureInfoFromParams U ((type, name) # r) =
     (if type = ''sampler'' then TextureInfoFromParams U r
      else (name, getDimensions U type) # TextureInfoFromParams U r)"

definition GetClassWrapperName :: string where
  "GetClassWrapperName = ''OCIO''"

definition WriteShaderClassWrapperHeader ::
  "'d services \<Rightarrow> MetalClassWrappingInterface \<Rightarrow> MetalClassWrappingInterface" where
  "WriteShaderClassWrapperHeader U w =
     (if \<not> hasClassWrapper U GPU_LANGUAGE_MSL_METAL then w
      else
        let className = GetClassWrapperName;
            textureInfoses = TextureInfoFromParams U (m_classWrapFunctionParams w);
            ss = [newLine (classWrapperHeader U className textureInfoses), newLine []]
        in addToHeaderShaderCode (Some (GpuShaderText_string U 0 ss)) w)"

definition WriteShaderClassWrapperFooter ::
  "'d services \<Rightarrow> string \<Rightarrow> MetalClassWrappingInterface \<Rightarrow> MetalClassWrappingInterface" where
  "WriteShaderClassWrapperFooter U functionName w =
     (if \<not> hasClassWrapper U GPU_LANGUAGE_MSL_METAL then w
      else
        let className = GetClassWrapperName;
            textureInfoses = TextureInfoFromParams U (m_classWrapFunctionParams w);
            ss = [newLine [],
                  newLine (classWrapperFooter U className textureInfoses functionName)]
        in addToFooterShaderCode (Some (GpuShaderText_string U 0 ss)) w)"

subsection \<open>finalize\<close>

text \<open>
  The textures live in the subclass (\<^verbatim>\<open>GenericGpuShaderDesc\<close>, absent) and are read through
  \<^verbatim>\<open>getNum3DTextures\<close>, \<^verbatim>\<open>get3DTexture\<close>, \<^verbatim>\<open>getNumTextures\<close> and \<^verbatim>\<open>getTexture\<close>:
  \<open>finalize\<close> takes the two enumerations as lists, in index order. The interpolation and
  the channel of a texture are read into locals that are never used and are left out.
\<close>

record Texture3D =
  t3_textureName :: string
  t3_samplerName :: string
  t3_edgelen :: nat

record Texture =
  tx_textureName :: string
  tx_samplerName :: string
  tx_width :: nat
  tx_height :: nat

text \<open>The statements on \<^verbatim>\<open>kw\<close> and on \<^verbatim>\<open>kw1\<close> in the OSL branch, in source order.\<close>

definition OSL_kw :: "string \<Rightarrow> GpuShaderText_stmt list" where
  "OSL_kw functionName =
     [newLine '''',
      newLine ''/* All the includes */'',
      newLine '''',
      newLine (''#include '' @ [CHR 0x22] @ ''vector4.h'' @ [CHR 0x22]),
      newLine (''#include '' @ [CHR 0x22] @ ''color4.h'' @ [CHR 0x22]),
      newLine '''',
      newLine ''/* All the generic helper methods */'',
      newLine '''',
      newLine ''vector4 __operator__mul__(vector4 v, matrix m)'',
      newLine ''{'',
      indent,
      newLine (''return vector4(v.x * m[0][0] + v.y * m[1][0] + v.z * m[2][0] + v.w * m[3][0], '' @
               ''v.x * m[0][1] + v.y * m[1][1] + v.z * m[2][1] + v.w * m[3][1], '' @
               ''v.x * m[0][2] + v.y * m[1][2] + v.z * m[2][2] + v.w * m[3][2], '' @
               ''v.x * m[0][3] + v.y * m[1][3] + v.z * m[2][3] + v.w * m[3][3]);''),
      dedent,
      newLine ''}'',
      newLine '''',
      newLine ''vector4 __operator__mul__(color4 c, vector4 v)'',
      newLine ''{'',
      indent,
      newLine ''return vector4(c.rgb.r, c.rgb.g, c.rgb.b, c.a) * v;'',
      dedent,
      newLine ''}'',
      newLine '''',
      newLine ''vector4 __operator__mul__(vector4 v, color4 c)'',
      newLine ''{'',
      indent,
      newLine ''return v * vector4(c.rgb.r, c.rgb.g, c.rgb.b, c.a);'',
      dedent,
      newLine ''}'',
      newLine '''',
      newLine ''vector4 __operator__sub__(color4 c, vector4 v)'',
      newLine ''{'',
      indent,
      newLine ''return vector4(c.rgb.r, c.rgb.g, c.rgb.b, c.a) - v;'',
      dedent,
      newLine ''}'',
      newLine '''',
      newLine ''vector4 __operator__add__(vector4 v, color4 c) {'',
      indent,
      newLine ''return v + vector4(c.rgb.r, c.rgb.g, c.rgb.b, c.a);'',
      dedent,
      newLine ''}'',
      newLine '''',
      newLine ''vector4 __operator__add__(color4 c, vector4 v) {'',
      indent,
      newLine ''return vector4(c.rgb.r, c.rgb.g, c.rgb.b, c.a) + v;'',
      dedent,
      newLine ''}'',
      newLine '''',
      newLine ''vector4 pow(color4 c, vector4 v) {'',
      indent,
      newLine ''return pow(vector4(c.rgb.r, c.rgb.g, c.rgb.b, c.a), v);'',
      dedent,
      newLine ''}'',
      newLine '''',
      newLine ''vector4 max(vector4 v, color4 c) {'',
      indent,
      newLine ''return max(v, vector4(c.rgb.r, c.rgb.g, c.rgb.b, c.a));'',
      dedent,
      newLine ''}'',
      newLine '''',
      newLine ''/* The shader implementation */'',
      newLine '''',
      newLine (''shader '' @ ''OSL_'' @ functionName @
               ''(color4 inColor = {color(0), 1}, output color4 outColor = {color(0), 1})''),
      newLine ''{'']"

definition OSL_kw1 :: "string \<Rightarrow> GpuShaderText_stmt list" where
  "OSL_kw1 functionName =
     [newLine '''',
      newLine (''outColor = '' @ functionName @ ''(inColor);''),
      newLine ''}'']"

definition finalize_OSL :: "'d services \<Rightarrow> ('t, 'v) Impl \<Rightarrow> ('t, 'v) Impl" where
  "finalize_OSL U s =
     (let str = GpuShaderText_string U 0 (OSL_kw (getFunctionName s)) @ m_declarations s;
          s1 = s\<lparr>m_declarations := str\<rparr>
      in s1\<lparr>m_functionFooter :=
               m_functionFooter s1 @ GpuShaderText_string U 0 (OSL_kw1 (getFunctionName s1))\<rparr>)"

text \<open>One round of each of the two texture loops of the Metal branch.\<close>

definition add3DTexture ::
  "'d services \<Rightarrow> GpuLanguage \<Rightarrow> Texture3D \<Rightarrow> MetalClassWrappingInterface \<Rightarrow>
   MetalClassWrappingInterface" where
  "add3DTexture U lang t w =
     (let textureName = t3_textureName t;
          texType = getTexType U lang 3 ''float'';
          w1 = addToFunctionParameter texType textureName w
      in addToFunctionParameter ''sampler'' (getSamplerName U textureName) w1)"

definition addTexture ::
  "'d services \<Rightarrow> GpuLanguage \<Rightarrow> Texture \<Rightarrow> MetalClassWrappingInterface \<Rightarrow>
   MetalClassWrappingInterface" where
  "addTexture U lang t w =
     (let textureName = tx_textureName t;
          texType = getTexType U lang (if tx_height t > 1 then 2 else 1) ''float'';
          w1 = addToFunctionParameter texType textureName w
      in addToFunctionParameter ''sampler'' (getSamplerName U textureName) w1)"

definition finalize_Metal ::
  "'d services \<Rightarrow> Texture3D list \<Rightarrow> Texture list \<Rightarrow> ('t, 'v) Impl \<Rightarrow> ('t, 'v) Impl option" where
  "finalize_Metal U textures3D textures s =
     (case m_classWrappingInterface s of
        Owned w \<Rightarrow>
          (let w1 = fold (add3DTexture U (getLanguage s)) textures3D w;
               w2 = fold (addTexture U (getLanguage s)) textures w1;
               w3 = WriteShaderClassWrapperHeader U w2;
               w4 = WriteShaderClassWrapperFooter U (m_functionName s) w3
           in Some (s\<lparr>m_classWrappingInterface := Owned w4\<rparr>))
      | _ \<Rightarrow> None)"

definition finalize ::
  "'d services \<Rightarrow> Texture3D list \<Rightarrow> Texture list \<Rightarrow> ('t, 'v) Impl \<Rightarrow> ('t, 'v) Impl option" where
  "finalize U textures3D textures s =
     (let s1 = (if getLanguage s = LANGUAGE_OSL_1 then finalize_OSL U s else s)
      in case (if getLanguage s1 = GPU_LANGUAGE_MSL_METAL
               then finalize_Metal U textures3D textures s1 else Some s1) of
           None \<Rightarrow> None
         | Some s2 \<Rightarrow>
             createShaderText U (Chars (m_declarations s2)) (Chars (m_helperMethods s2))
               (Chars (m_functionHeader s2)) (Chars (m_functionBody s2))
               (Chars (m_functionFooter s2)) s2)"

subsection \<open>GpuShaderDesc\<close>

text \<open>\<^verbatim>\<open>CreateShaderDesc()\<close> builds a new descriptor, whose \<^verbatim>\<open>Impl\<close> is \<open>new_Impl\<close>.\<close>

definition clone :: "('t, 'v) Impl \<Rightarrow> ('t, 'v) Impl" where
  "clone s = assign new_Impl s"

definition getShaderText :: "('t, 'v) Impl \<Rightarrow> string" where
  "getShaderText s = m_shaderCode s"

subsection \<open>A descriptor's lifetime as a sequence of calls\<close>

text \<open>
  Every public method of the file is one constructor of \<open>call\<close>, with its arguments
  (\<open>Finalize\<close> carries the textures registered when it is called). \<open>exec\<close> runs one call
  and gives what the caller sees and the state left behind; an exception is a reply, and
  the descriptor goes on with the state the throwing method left; undefined behaviour is
  \<open>None\<close>. \<open>begin\<close> and \<open>end\<close> have empty bodies; \<open>clone\<close> hands out a new descriptor and
  leaves this one alone.
\<close>

datatype ('t, 'v) call =
    SetUniqueID "string option"
  | GetUniqueID
  | SetLanguage GpuLanguage
  | GetLanguage
  | SetFunctionName "string option"
  | GetFunctionName
  | SetResourcePrefix "string option"
  | GetResourcePrefix
  | SetPixelName "string option"
  | GetPixelName
  | GetNextResourceIndex
  | HasDynamicProperty 't
  | AddDynamicProperty "('t, 'v) DynamicPropertyRcPtr"
  | GetNumDynamicProperties
  | GetDynamicPropertyAt "32 word"
  | GetDynamicPropertyOf 't
  | Begin "string option"
  | End
  | GetCacheID
  | AddToDeclareShaderCode "string option"
  | AddToHelperShaderCode "string option"
  | AddToFunctionShaderCode "string option"
  | AddToFunctionHeaderShaderCode "string option"
  | AddToFunctionFooterShaderCode "string option"
  | CreateShaderText const_char_ptr const_char_ptr const_char_ptr const_char_ptr const_char_ptr
  | Finalize "Texture3D list" "Texture list"
  | Clone
  | GetShaderText

datatype ('t, 'v) reply =
    Void
  | Text string
  | Language GpuLanguage
  | Index "32 word"
  | Flag bool
  | Count "32 word"
  | Property "('t, 'v) DynamicProperty"
  | Thrown "'t Exception"
  | Cloned "('t, 'v) Impl"

definition void :: "('t, 'v) Impl option \<Rightarrow> (('t, 'v) reply \<times> ('t, 'v) Impl) option" where
  "void r = map_option (\<lambda>s. (Void, s)) r"

definition caught ::
  "('t Exception, 'a, ('t, 'v) Impl) outcome \<Rightarrow> ('a \<Rightarrow> ('t, 'v) reply) \<Rightarrow>
   (('t, 'v) reply \<times> ('t, 'v) Impl) option" where
  "caught r f =
     (case r of
        Returns a s \<Rightarrow> Some (f a, s)
      | Throws e s \<Rightarrow> Some (Thrown e, s)
      | Undefined \<Rightarrow> None)"

fun exec ::
  "'d services \<Rightarrow> ('t, 'v) call \<Rightarrow> ('t, 'v) Impl \<Rightarrow> (('t, 'v) reply \<times> ('t, 'v) Impl) option" where
  "exec U (SetUniqueID uid) s = void (Some (setUniqueID uid s))"
| "exec U GetUniqueID s = Some (Text (getUniqueID s), s)"
| "exec U (SetLanguage lang) s = void (setLanguage lang s)"
| "exec U GetLanguage s = Some (Language (getLanguage s), s)"
| "exec U (SetFunctionName name) s = void (setFunctionName name s)"
| "exec U GetFunctionName s = Some (Text (getFunctionName s), s)"
| "exec U (SetResourcePrefix prefix) s = void (setResourcePrefix prefix s)"
| "exec U GetResourcePrefix s = Some (Text (getResourcePrefix s), s)"
| "exec U (SetPixelName name) s = void (setPixelName name s)"
| "exec U GetPixelName s = Some (Text (getPixelName s), s)"
| "exec U GetNextResourceIndex s = (case getNextResourceIndex s of (i, s') \<Rightarrow> Some (Index i, s'))"
| "exec U (HasDynamicProperty type) s = Some (Flag (hasDynamicProperty type s), s)"
| "exec U (AddDynamicProperty prop) s = caught (addDynamicProperty prop s) (\<lambda>_. Void)"
| "exec U GetNumDynamicProperties s = Some (Count (getNumDynamicProperties s), s)"
| "exec U (GetDynamicPropertyAt index) s = caught (getDynamicProperty_index index s) Property"
| "exec U (GetDynamicPropertyOf type) s = caught (getDynamicProperty_type type s) Property"
| "exec U (Begin uid) s = Some (Void, s)"
| "exec U End s = Some (Void, s)"
| "exec U GetCacheID s = (case getCacheID U s of (cacheID, s') \<Rightarrow> Some (Text cacheID, s'))"
| "exec U (AddToDeclareShaderCode shaderCode) s = void (Some (addToDeclareShaderCode shaderCode s))"
| "exec U (AddToHelperShaderCode shaderCode) s = void (Some (addToHelperShaderCode shaderCode s))"
| "exec U (AddToFunctionShaderCode shaderCode) s =
     void (Some (addToFunctionShaderCode shaderCode s))"
| "exec U (AddToFunctionHeaderShaderCode shaderCode) s =
     void (Some (addToFunctionHeaderShaderCode shaderCode s))"
| "exec U (AddToFunctionFooterShaderCode shaderCode) s =
     void (Some (addToFunctionFooterShaderCode shaderCode s))"
| "exec U (CreateShaderText d h fh fb ff) s = void (createShaderText U d h fh fb ff s)"
| "exec U (Finalize textures3D textures) s = void (finalize U textures3D textures s)"
| "exec U Clone s = Some (Cloned (clone s), s)"
| "exec U GetShaderText s = Some (Text (getShaderText s), s)"

text \<open>
  The replies to a sequence of calls and the last state. Undefined behaviour ends the
  run: the calls behind it get no reply.
\<close>

fun run ::
  "'d services \<Rightarrow> ('t, 'v) call list \<Rightarrow> ('t, 'v) Impl \<Rightarrow> ('t, 'v) reply list \<times> ('t, 'v) Impl" where
  "run U [] s = ([], s)"
| "run U (c # cs) s =
     (case exec U c s of
        None \<Rightarrow> ([], s)
      | Some (r, s') \<Rightarrow> (case run U cs s' of (rs, s'') \<Rightarrow> (r # rs, s'')))"

text \<open>The resource indices among the replies, in the order they were handed out.\<close>

fun indices :: "('t, 'v) reply list \<Rightarrow> 32 word list" where
  "indices [] = []"
| "indices (Index i # rs) = i # indices rs"
| "indices (r # rs) = indices rs"

subsection \<open>A sample of the absent services\<close>

text \<open>
  Modelled from the spec: the language names, the content hash and the text helper are
  outside the core (spec, section 1) and the spec fixes nothing about them but that they
  are deterministic. \<open>sample\<close> is one simple choice (two spaces per indentation level, a
  hash that only keeps the length), used to run the methods on examples.
\<close>

definition sample :: "nat services" where
  "sample =
     \<lparr>GpuLanguageToString =
        (\<lambda>lang. case lang of
           GPU_LANGUAGE_GLSL_1_2 \<Rightarrow> ''glsl_1.2''
         | GPU_LANGUAGE_MSL_METAL \<Rightarrow> ''msl''
         | LANGUAGE_OSL_1 \<Rightarrow> ''osl_1''
         | GPU_LANGUAGE_OTHER n \<Rightarrow> ''other''),
      CacheIDHash = (\<lambda>bytes len. ''h'' @ string_of_nat len),
      flushLine = (\<lambda>i line. replicate (2 * i) (CHR '' '') @ line @ [CHR 0x0A]),
      hasClassWrapper = (\<lambda>lang. lang = GPU_LANGUAGE_MSL_METAL),
      getDimensions = (\<lambda>type. if type = ''texture3d<float>'' then 3
                              else if type = ''texture2d<float>'' then 2 else 1),
      classWrapperHeader = (\<lambda>className infos. ''struct '' @ className @ '' {''),
      classWrapperFooter = (\<lambda>className infos functionName. ''};''),
      getTexType = (\<lambda>lang dims type. ''texture'' @ string_of_nat dims @ ''d<'' @ type @ ''>''),
      getSamplerName = (\<lambda>name. name @ ''Sampler'')\<rparr>"

subsection \<open>Example states\<close>

text \<open>
  Descriptors with one and with two dynamic properties registered; a Metal descriptor as
  \<^verbatim>\<open>setLanguage(GPU_LANGUAGE_MSL_METAL)\<close> leaves a new one, and what \<^verbatim>\<open>finalize()\<close> with no
  textures makes of it under \<open>sample\<close>; an OSL descriptor as \<^verbatim>\<open>setLanguage(LANGUAGE_OSL_1)\<close>
  leaves a new one; and three textures, registered with sampler names of their own.
\<close>

definition one_property :: "(nat, unit) Impl" where
  "one_property = new_Impl\<lparr>m_dynamicProperties := [\<lparr>getType = 1, dp_value = ()\<rparr>]\<rparr>"

definition two_properties :: "(nat, unit) Impl" where
  "two_properties =
     new_Impl\<lparr>m_dynamicProperties :=
       [\<lparr>getType = 1, dp_value = ()\<rparr>, \<lparr>getType = 2, dp_value = ()\<rparr>]\<rparr>"

definition metal_fresh :: "('t, 'v) Impl" where
  "metal_fresh =
     new_Impl\<lparr>m_language := GPU_LANGUAGE_MSL_METAL, m_functionName := ''Display'',
              m_classWrappingInterface := Owned new_MetalClassWrappingInterface\<rparr>"

definition wrapper_finalized :: MetalClassWrappingInterface where
  "wrapper_finalized =
     \<lparr>m_classWrapHeader = classWrapHeaderBanner @ ''struct OCIO {'' @ [CHR 0x0A, CHR 0x0A],
      m_classWrapFooter = classWrapFooterBanner @ [CHR 0x0A] @ ''};'' @ [CHR 0x0A],
      m_classWrapFunctionParams = []\<rparr>"

definition metal_finalized :: "('t, 'v) Impl" where
  "metal_finalized =
     metal_fresh\<lparr>m_classWrappingInterface := Owned wrapper_finalized,
                 m_shaderCode := m_classWrapHeader wrapper_finalized @
                                 m_classWrapFooter wrapper_finalized,
                 m_shaderCodeID := ''h78''\<rparr>"

definition osl_fresh :: "('t, 'v) Impl" where
  "osl_fresh = new_Impl\<lparr>m_language := LANGUAGE_OSL_1\<rparr>"

definition lut3d :: Texture3D where
  "lut3d = \<lparr>t3_textureName = ''lut3d'', t3_samplerName = ''sampler3d'', t3_edgelen = 32\<rparr>"

definition lut1d :: Texture where
  "lut1d = \<lparr>tx_textureName = ''lut1d'', tx_samplerName = ''sampler1d'', tx_width = 4096,
            tx_height = 1\<rparr>"

definition lut2d :: Texture where
  "lut2d = \<lparr>tx_textureName = ''lut2d'', tx_samplerName = ''sampler2d'', tx_width = 4096,
            tx_height = 17\<rparr>"

subsection \<open>Counting occurrences\<close>

text \<open>The number of positions of a text at which a pattern starts.\<close>

fun occurrences :: "'a list \<Rightarrow> 'a list \<Rightarrow> nat" where
  "occurrences p [] = (if p = [] then 1 else 0)"
| "occurrences p (c # cs) =
     (if take (length p) (c # cs) = p then 1 else 0) + occurrences p cs"

section \<open>Properties\<close>

subsection \<open>Auxiliary facts\<close>

lemma orEmpty_simps [simp]: "orEmpty None = []" "orEmpty (Some t) = t"
  by (simp_all add: orEmpty_def)

lemma string_of_nat_small: "n < 10 \<Longrightarrow> string_of_nat n = [digit n]"
  by (simp add: string_of_nat.simps)

lemma hasType_iff: "hasType ps t \<longleftrightarrow> t \<in> getType ` set ps"
  by (induction ps) auto

lemma findType_append_new:
  "\<not> hasType ps (getType p) \<Longrightarrow> findType (ps @ [p]) (getType p) = Some p"
  by (induction ps) auto

lemma unat_word_of_nat32: "n < 2 ^ 32 \<Longrightarrow> unat (word_of_nat n :: 32 word) = n"
  by (simp add: unat_of_nat)

lemma word_of_nat32_less_Suc:
  assumes "n < 2 ^ 32 - 1"
  shows "(word_of_nat n :: 32 word) < word_of_nat (Suc n)"
proof -
  have "unat (word_of_nat n :: 32 word) = n" "unat (word_of_nat (Suc n) :: 32 word) = Suc n"
    using assms by (simp_all only: unat_of_nat) simp_all
  then show ?thesis
    by (simp only: word_less_nat_alt)
qed

lemma getDynamicProperty_index_last:
  assumes "length ps < 2 ^ 32 - 1" and "m_dynamicProperties s = ps @ [p]"
  shows "getDynamicProperty_index (word_of_nat (length ps)) s = Returns p s"
proof -
  have "\<not> word_of_nat (length (ps @ [p])) \<le> (word_of_nat (length ps) :: 32 word)"
    using word_of_nat32_less_Suc [OF assms(1)] by (simp only: length_append_singleton not_le)
  moreover have "unat (word_of_nat (length ps) :: 32 word) = length ps"
    using assms(1) by (intro unat_word_of_nat32) simp
  ultimately show ?thesis
    by (simp only: getDynamicProperty_index_def assms(2) if_False nth_append_length)
qed

lemma readChars_own [simp]:
  "readChars capacity code NullChars = Some []"
  "readChars capacity code (Chars t) = Some t"
  by (simp_all add: readChars_def)

lemma appendChars_own [simp]:
  "appendChars capacity NullChars (Some code) = Some code"
  "appendChars capacity (Chars t) (Some code) = Some (code @ t)"
  "appendChars capacity p None = None"
  by (simp_all add: appendChars_def)

lemma fold_appendChars_None: "fold (appendChars capacity) ps None = None"
  by (induction ps) simp_all


lemma createShaderText_frame:
  assumes "createShaderText U d h fh fb ff s = Some s'"
  shows "\<exists>code. s' = s\<lparr>m_shaderCode := code,
      m_shaderCodeID := CacheIDHash U code (length code mod 2 ^ 32), m_cacheID := []\<rparr>"
  using assms
  by (auto simp add: createShaderText_def split: if_splits option.splits pointer.splits
      prod.splits)

lemma cacheID_cleared:
  "m_cacheID (new_Impl :: ('t, 'v) Impl) = []"
  "m_cacheID (setUniqueID uid s) = []"
  "setLanguage lang s = Some s' \<Longrightarrow> m_cacheID s' = []"
  "setFunctionName name s = Some s' \<Longrightarrow> m_cacheID s' = []"
  "setResourcePrefix name s = Some s' \<Longrightarrow> m_cacheID s' = []"
  "setPixelName name s = Some s' \<Longrightarrow> m_cacheID s' = []"
  "createShaderText U d h fh fb ff s = Some s' \<Longrightarrow> m_cacheID s' = []"
  "finalize U a b s = Some s' \<Longrightarrow> m_cacheID s' = []"
  by (auto simp add: new_Impl_def setUniqueID_def setLanguage_def setFunctionName_def
      setResourcePrefix_def setPixelName_def finalize_def Let_def
      dest!: createShaderText_frame split: option.splits pointer.splits if_splits)

subsection \<open>Auxiliary facts about the buffers and about finalize\<close>

lemma fold_addToDeclareShaderCode:
  "m_declarations (fold addToDeclareShaderCode cs s) =
     (if cs = [] then m_declarations s
      else (if m_declarations s = [] then declarationsBanner else m_declarations s) @
           concat (map (\<lambda>c. case c of None \<Rightarrow> [] | Some t \<Rightarrow> t) cs))"
proof (induction cs arbitrary: s)
  case Nil
  show ?case by simp
next
  case (Cons c cs)
  have ne: "m_declarations (addToDeclareShaderCode c s) \<noteq> []"
    by (simp add: addToDeclareShaderCode_def declarationsBanner_def)
  have first: "m_declarations (addToDeclareShaderCode c s) =
      (if m_declarations s = [] then declarationsBanner else m_declarations s) @
      (case c of None \<Rightarrow> [] | Some t \<Rightarrow> t)"
    by (simp add: addToDeclareShaderCode_def split: option.splits)
  show ?case
    using Cons.IH [of "addToDeclareShaderCode c s"] ne by (simp add: first)
qed

lemma fold_addToHelperShaderCode:
  "m_helperMethods (fold addToHelperShaderCode cs s) =
     (if cs = [] then m_helperMethods s
      else (if m_helperMethods s = [] then helperMethodsBanner else m_helperMethods s) @
           concat (map (\<lambda>c. case c of None \<Rightarrow> [] | Some t \<Rightarrow> t) cs))"
proof (induction cs arbitrary: s)
  case Nil
  show ?case by simp
next
  case (Cons c cs)
  have ne: "m_helperMethods (addToHelperShaderCode c s) \<noteq> []"
    by (simp add: addToHelperShaderCode_def helperMethodsBanner_def)
  have first: "m_helperMethods (addToHelperShaderCode c s) =
      (if m_helperMethods s = [] then helperMethodsBanner else m_helperMethods s) @
      (case c of None \<Rightarrow> [] | Some t \<Rightarrow> t)"
    by (simp add: addToHelperShaderCode_def split: option.splits)
  show ?case
    using Cons.IH [of "addToHelperShaderCode c s"] ne by (simp add: first)
qed

lemma fold_addToFunctionShaderCode:
  "m_functionBody (fold addToFunctionShaderCode cs s) =
     m_functionBody s @ concat (map (\<lambda>c. case c of None \<Rightarrow> [] | Some t \<Rightarrow> t) cs)"
  by (induction cs arbitrary: s) (simp_all add: addToFunctionShaderCode_def split: option.splits)

lemma fold_addToFunctionHeaderShaderCode:
  "m_functionHeader (fold addToFunctionHeaderShaderCode cs s) =
     m_functionHeader s @ concat (map (\<lambda>c. case c of None \<Rightarrow> [] | Some t \<Rightarrow> t) cs)"
  by (induction cs arbitrary: s)
    (simp_all add: addToFunctionHeaderShaderCode_def split: option.splits)

lemma fold_addToFunctionFooterShaderCode:
  "m_functionFooter (fold addToFunctionFooterShaderCode cs s) =
     m_functionFooter s @ concat (map (\<lambda>c. case c of None \<Rightarrow> [] | Some t \<Rightarrow> t) cs)"
  by (induction cs arbitrary: s)
    (simp_all add: addToFunctionFooterShaderCode_def split: option.splits)

lemma createShaderText_not_Metal:
  "m_language s \<noteq> GPU_LANGUAGE_MSL_METAL \<Longrightarrow>
   createShaderText U (Chars d) (Chars h) (Chars fh) (Chars fb) (Chars ff) s =
     Some (s\<lparr>m_shaderCode := d @ h @ fh @ fb @ ff,
             m_shaderCodeID := CacheIDHash U (d @ h @ fh @ fb @ ff) (length (d @ h @ fh @ fb @ ff) mod 2 ^ 32),
             m_cacheID := []\<rparr>)"
  by (simp add: createShaderText_def getLanguage_def)

lemma finalize_OSL_result:
  assumes "m_language s = LANGUAGE_OSL_1"
  shows "\<exists>s'. finalize U a b s = Some s' \<and> m_language s' = LANGUAGE_OSL_1 \<and>
     m_functionName s' = m_functionName s \<and>
     m_declarations s' = GpuShaderText_string U 0 (OSL_kw (m_functionName s)) @ m_declarations s \<and>
     m_helperMethods s' = m_helperMethods s \<and> m_functionHeader s' = m_functionHeader s \<and>
     m_functionBody s' = m_functionBody s \<and>
     m_functionFooter s' = m_functionFooter s @ GpuShaderText_string U 0 (OSL_kw1 (m_functionName s)) \<and>
     getShaderText s' = m_declarations s' @ m_helperMethods s' @ m_functionHeader s' @
        m_functionBody s' @ m_functionFooter s'"
  using assms
  by (simp add: finalize_def finalize_OSL_def getLanguage_def getFunctionName_def Let_def
      createShaderText_not_Metal getShaderText_def)

lemma finalize_again:
  assumes "finalize U a b s = Some s1"
  shows "\<exists>s2. finalize U a' b' s1 = Some s2"
  using assms
  by (auto simp add: finalize_def finalize_OSL_def finalize_Metal_def getLanguage_def Let_def
      createShaderText_def split: if_splits option.splits pointer.splits)

subsection \<open>Auxiliary facts about runs\<close>

lemma createShaderText_numResources:
  "createShaderText U d h fh fb ff s = Some s' \<Longrightarrow> m_numResources s' = m_numResources s"
  by (auto dest!: createShaderText_frame)

lemma finalize_numResources:
  "finalize U a b s = Some s' \<Longrightarrow> m_numResources s' = m_numResources s"
  by (auto simp add: finalize_def finalize_OSL_def finalize_Metal_def Let_def
      dest!: createShaderText_numResources split: if_splits option.splits pointer.splits)

lemma exec_GetNextResourceIndex:
  "exec U GetNextResourceIndex s = Some (Index (m_numResources s), s\<lparr>m_numResources := m_numResources s + 1\<rparr>)"
  by (simp add: getNextResourceIndex_def)

lemma exec_other:
  assumes "exec U c s = Some (r, s')" and "c \<noteq> GetNextResourceIndex"
  shows "m_numResources s' = m_numResources s \<and> indices (r # rs) = indices rs"
proof (cases c)
  case (Finalize a b)
  then show ?thesis using assms by (auto simp add: void_def dest: finalize_numResources)
next
  case (CreateShaderText d h fh fb ff)
  then show ?thesis using assms by (auto simp add: void_def dest: createShaderText_numResources)
next
  case (SetLanguage l)
  then show ?thesis using assms
    by (auto simp add: void_def setLanguage_def Let_def split: pointer.splits if_splits)
next
  case (AddDynamicProperty p)
  then show ?thesis using assms
    by (auto simp add: caught_def addDynamicProperty_def split: option.splits if_splits)
next
  case (GetDynamicPropertyAt i)
  then show ?thesis using assms
    by (auto simp add: caught_def getDynamicProperty_index_def split: if_splits)
next
  case (GetDynamicPropertyOf t)
  then show ?thesis using assms
    by (auto simp add: caught_def getDynamicProperty_type_def split: option.splits)
qed (use assms in \<open>auto simp add: void_def setUniqueID_def setFunctionName_def
      setResourcePrefix_def setPixelName_def getCacheID_def Let_def addToDeclareShaderCode_def
      addToHelperShaderCode_def addToFunctionShaderCode_def addToFunctionHeaderShaderCode_def
      addToFunctionFooterShaderCode_def split: option.splits if_splits\<close>)

lemma run_indices_from:
  "indices (fst (run U cs s)) =
     map (\<lambda>k. m_numResources s + word_of_nat k) [0..<length (indices (fst (run U cs s)))]"
proof (induction cs arbitrary: s)
  case Nil
  show ?case by simp
next
  case (Cons c cs)
  show ?case
  proof (cases "exec U c s")
    case None
    then show ?thesis by simp
  next
    case (Some p)
    obtain r s' where p: "p = (r, s')" by (cases p)
    obtain rs s'' where rest: "run U cs s' = (rs, s'')" by (cases "run U cs s'")
    have run: "fst (run U (c # cs) s) = r # rs"
      using Some p rest by simp
    have ih: "indices rs = map (\<lambda>k. m_numResources s' + word_of_nat k) [0..<length (indices rs)]"
      using Cons.IH [of s'] rest by simp
    show ?thesis
    proof (cases "c = GetNextResourceIndex")
      case True
      then have r: "r = Index (m_numResources s)" and s': "m_numResources s' = m_numResources s + 1"
        using True Some p by (auto simp add: getNextResourceIndex_def)
      have "indices (r # rs) = m_numResources s # indices rs"
        using r by simp
      also have "\<dots> = m_numResources s #
          map (\<lambda>k. m_numResources s + word_of_nat (Suc k)) [0..<length (indices rs)]"
        using ih s' by (simp add: add.assoc)
      also have "\<dots> = map (\<lambda>k. m_numResources s + word_of_nat k) [0..<Suc (length (indices rs))]"
        by (simp only: map_upt_Suc) simp
      finally show ?thesis
        using r by (simp only: run indices.simps list.size) simp
    next
      case False
      from exec_other [OF _ False, of U s r s' rs] Some p
      have "m_numResources s' = m_numResources s" "indices (r # rs) = indices rs"
        by simp_all
      then show ?thesis
        using ih by (simp only: run)
    qed
  qed
qed

lemma run_indices_count:
  "length (fst (run U cs s)) = length cs \<Longrightarrow>
   length (indices (fst (run U cs s))) = count_list cs GetNextResourceIndex"
proof (induction cs arbitrary: s)
  case Nil
  show ?case by simp
next
  case (Cons c cs)
  show ?case
  proof (cases "exec U c s")
    case None
    then show ?thesis using Cons.prems by simp
  next
    case (Some p)
    obtain r s' where p: "p = (r, s')" by (cases p)
    obtain rs s'' where rest: "run U cs s' = (rs, s'')" by (cases "run U cs s'")
    have run: "fst (run U (c # cs) s) = r # rs"
      using Some p rest by simp
    have len: "length (fst (run U cs s')) = length cs"
      using Cons.prems run rest by simp
    have ih: "length (indices rs) = count_list cs GetNextResourceIndex"
      using Cons.IH [OF len] rest by simp
    show ?thesis
    proof (cases "c = GetNextResourceIndex")
      case True
      then have "r = Index (m_numResources s)"
        using Some p by (simp add: getNextResourceIndex_def)
      then show ?thesis unfolding run using True ih by simp
    next
      case False
      from exec_other [OF _ False, of U s r s' rs] Some p
      have "indices (r # rs) = indices rs" by simp
      then show ?thesis unfolding run using False ih by simp
    qed
  qed
qed

lemma run_replicate_GetNextResourceIndex:
  "length (fst (run U (replicate n GetNextResourceIndex) s)) = n"
proof (induction n arbitrary: s)
  case 0
  show ?case by simp
next
  case (Suc n)
  obtain rs s'' where rest: "run U (replicate n GetNextResourceIndex)
      (s\<lparr>m_numResources := m_numResources s + 1\<rparr>) = (rs, s'')"
    by (cases "run U (replicate n GetNextResourceIndex) (s\<lparr>m_numResources := m_numResources s + 1\<rparr>)")
  have "length rs = n"
    using Suc [of "s\<lparr>m_numResources := m_numResources s + 1\<rparr>"] rest by simp
  then show ?case
    using rest by (simp add: getNextResourceIndex_def)
qed

lemma indices_from_zero:
  assumes "is = map (\<lambda>k. (0 :: 32 word) + word_of_nat k) [0..<n]" and "n \<le> 2 ^ 32"
  shows "map unat is = [0..<n]"
proof -
  have "\<And>k. k < n \<Longrightarrow> unat (word_of_nat k :: 32 word) = k"
    using assms(2) by (simp add: unat_of_nat)
  then show ?thesis
    by (simp add: assms(1) list_eq_iff_nth_eq)
qed

lemma createShaderText_dynamicProperties:
  "createShaderText U d h fh fb ff s = Some s' \<Longrightarrow> m_dynamicProperties s' = m_dynamicProperties s"
  by (auto dest!: createShaderText_frame)

lemma finalize_dynamicProperties:
  "finalize U a b s = Some s' \<Longrightarrow> m_dynamicProperties s' = m_dynamicProperties s"
  by (auto simp add: finalize_def finalize_OSL_def finalize_Metal_def Let_def
      dest!: createShaderText_dynamicProperties split: if_splits option.splits pointer.splits)

lemma exec_types_distinct:
  assumes "exec U c s = Some (r, s')" and "distinct (map getType (m_dynamicProperties s))"
  shows "distinct (map getType (m_dynamicProperties s'))"
proof (cases c)
  case (Finalize a b)
  then show ?thesis using assms by (auto simp add: void_def dest: finalize_dynamicProperties)
next
  case (CreateShaderText d h fh fb ff)
  then show ?thesis using assms by (auto simp add: void_def dest: createShaderText_dynamicProperties)
next
  case (SetLanguage l)
  then show ?thesis using assms
    by (auto simp add: void_def setLanguage_def Let_def split: pointer.splits if_splits)
next
  case (AddDynamicProperty p)
  then show ?thesis using assms
    by (auto simp add: caught_def addDynamicProperty_def hasDynamicProperty_def hasType_iff
        split: option.splits if_splits)
next
  case (GetDynamicPropertyAt i)
  then show ?thesis using assms
    by (auto simp add: caught_def getDynamicProperty_index_def split: if_splits)
next
  case (GetDynamicPropertyOf t)
  then show ?thesis using assms
    by (auto simp add: caught_def getDynamicProperty_type_def split: option.splits)
qed (use assms in \<open>auto simp add: void_def setUniqueID_def setFunctionName_def
      setResourcePrefix_def setPixelName_def getCacheID_def getNextResourceIndex_def Let_def
      addToDeclareShaderCode_def
      addToHelperShaderCode_def addToFunctionShaderCode_def addToFunctionHeaderShaderCode_def
      addToFunctionFooterShaderCode_def split: option.splits if_splits\<close>)

lemma run_Cons_Some:
  "exec U c s = Some (r, s') \<Longrightarrow>
   run U (c # cs) s = (r # fst (run U cs s'), snd (run U cs s'))"
  by (simp split: prod.splits)

lemma run_types_distinct:
  "distinct (map getType (m_dynamicProperties s)) \<Longrightarrow>
   distinct (map getType (m_dynamicProperties (snd (run U cs s))))"
proof (induction cs arbitrary: s)
  case Nil
  then show ?case by simp
next
  case (Cons c cs)
  show ?case
  proof (cases "exec U c s")
    case None
    then show ?thesis using Cons.prems by simp
  next
    case (Some p)
    obtain r s' where p: "p = (r, s')" by (cases p)
    have "distinct (map getType (m_dynamicProperties s'))"
      using exec_types_distinct [of U c s r s'] Some p Cons.prems by simp
    from Cons.IH [OF this] show ?thesis
      using Some p by (simp only: run_Cons_Some snd_conv)
  qed
qed

lemma distinct_types_length:
  fixes ps :: "('t, 'v) DynamicProperty list"
  assumes "finite (UNIV :: 't set)" and "distinct (map getType ps)"
  shows "length ps \<le> card (UNIV :: 't set)"
proof -
  have "length ps = card (set (map getType ps))"
    using distinct_card [OF assms(2)] by simp
  also have "\<dots> \<le> card (UNIV :: 't set)"
    using assms(1) by (intro card_mono) simp_all
  finally show ?thesis .
qed

lemma reachable_properties_bound:
  fixes cs :: "('t, 'v) call list"
  assumes "finite (UNIV :: 't set)"
  shows "length (m_dynamicProperties (snd (run U cs new_Impl))) \<le> card (UNIV :: 't set)"
proof -
  have "distinct (map getType (m_dynamicProperties (new_Impl :: ('t, 'v) Impl)))"
    by (simp add: new_Impl_def)
  from run_types_distinct [OF this] show ?thesis
    by (intro distinct_types_length assms)
qed

lemma count_list_replicate_same: "count_list (replicate n x) x = n"
  by (induction n) simp_all

lemma indices_replicate:
  "indices (fst (run U (replicate n GetNextResourceIndex) s)) =
     map (\<lambda>k. m_numResources s + word_of_nat k) [0..<n]"
  using run_indices_from [of U "replicate n GetNextResourceIndex" s]
    run_indices_count [of U "replicate n GetNextResourceIndex" s]
    run_replicate_GetNextResourceIndex [of U n s]
  by (simp add: count_list_replicate_same)

lemma indices_replicate_length:
  "length (indices (fst (run U (replicate n GetNextResourceIndex) s))) = n"
  by (simp add: indices_replicate)

lemma indices_replicate_nth:
  "k < n \<Longrightarrow>
   indices (fst (run U (replicate n GetNextResourceIndex) s)) ! k = m_numResources s + word_of_nat k"
  by (simp add: indices_replicate)


subsection \<open>Auxiliary facts about occurrences\<close>

lemma occurrences_short: "length t < length p \<Longrightarrow> occurrences p t = 0"
  by (induction t) auto

lemma occurrences_self: "q \<noteq> [] \<Longrightarrow> occurrences q q = 1"
  by (cases q) (simp_all add: occurrences_short)

lemma occurrences_split:
  assumes "c \<notin> set q" and "q \<noteq> []"
  shows "occurrences q (xs @ c # ys) = occurrences q xs + occurrences q ys"
proof (induction xs)
  case Nil
  have "take (length q) (c # ys) \<noteq> q"
    using assms by (cases q) auto
  then show ?case using assms by simp
next
  case (Cons x xs)
  have "take (length q) ((x # xs) @ c # ys) = q \<longleftrightarrow> take (length q) (x # xs) = q"
  proof (cases "length q \<le> length (x # xs)")
    case True
    then show ?thesis by (simp only: take_append) simp
  next
    case False
    then have "length (x # xs) < length q"
      by simp
    then have "\<exists>k. length q = Suc (length (x # xs) + k)"
      by (rule less_imp_Suc_add)
    then obtain k where k: "length q = Suc (length (x # xs) + k)" ..
    have "take (length q) ((x # xs) @ c # ys) = (x # xs) @ c # take k ys"
      by (simp only: k take_append) simp
    then have mem: "c \<in> set (take (length q) ((x # xs) @ c # ys))"
      by simp
    have left: "take (length q) ((x # xs) @ c # ys) \<noteq> q"
    proof
      assume "take (length q) ((x # xs) @ c # ys) = q"
      with mem have "c \<in> set q" by (simp only:)
      with assms(1) show False by (rule notE)
    qed
    have len: "length (take (length q) (x # xs)) \<noteq> length q"
      by (simp add: k)
    have right: "take (length q) (x # xs) \<noteq> q"
    proof
      assume "take (length q) (x # xs) = q"
      with len show False by (simp only:)
    qed
    from left right show ?thesis by (simp only: simp_thms)
  qed
  then show ?case using Cons.IH by simp
qed

lemma occurrences_le_marker: "occurrences (a # q @ z) t \<le> occurrences q t"
proof -
  have "occurrences (a # q @ z) t \<le> occurrences q (tl t) \<and> occurrences q (tl t) \<le> occurrences q t"
  proof (induction t)
    case Nil
    show ?case by simp
  next
    case (Cons c cs)
    have "take (length q) cs = q" if "take (length (a # q @ z)) (c # cs) = a # q @ z"
    proof -
      from that have "take (length (q @ z)) cs = q @ z" by simp
      then have "take (length q) (take (length (q @ z)) cs) = take (length q) (q @ z)" by simp
      then show ?thesis by (simp add: min_def)
    qed
    then have step: "(if take (length (a # q @ z)) (c # cs) = a # q @ z then 1 else 0) \<le>
        (if take (length q) cs = q then 1 else (0::nat))"
      by auto
    show ?case
    proof (cases cs)
      case Nil
      then show ?thesis using step by (auto split: if_splits)
    next
      case (Cons d ds)
      then show ?thesis using step Cons.IH by (auto split: if_splits)
    qed
  qed
  then show ?thesis by simp
qed

lemma occurrences_ge_one: "1 \<le> occurrences p (xs @ p @ ys)"
proof (induction xs)
  case Nil
  have "take (length p) (p @ ys) = p" by simp
  then show ?case by (cases "p @ ys") auto
next
  case (Cons x xs)
  then show ?case by simp
qed

lemma occurrences_banner_once:
  assumes nl: "nl \<notin> set q" and q: "q \<noteq> []"
    and left: "occurrences q L = 0" and right: "occurrences q R = 0"
  shows "occurrences (nl # q @ [nl, nl]) (L @ (nl # q @ [nl, nl]) @ R) = 1"
proof -
  have "occurrences q (L @ (nl # q @ [nl, nl]) @ R) = occurrences q (L @ nl # (q @ nl # ([] @ nl # R)))"
    by simp
  also have "\<dots> = occurrences q L + (occurrences q q + (occurrences q [] + occurrences q R))"
    by (simp only: occurrences_split [OF nl q])
  also have "\<dots> = 1"
    using q by (simp add: left right occurrences_self)
  finally have "occurrences (nl # q @ [nl, nl]) (L @ (nl # q @ [nl, nl]) @ R) \<le> 1"
    using occurrences_le_marker [of nl q "[nl, nl]" "L @ (nl # q @ [nl, nl]) @ R"] by simp
  moreover have "1 \<le> occurrences (nl # q @ [nl, nl]) (L @ (nl # q @ [nl, nl]) @ R)"
    by (rule occurrences_ge_one)
  ultimately show ?thesis by simp
qed

lemma occurrences_skip_banner:
  assumes nl: "nl \<notin> set q" and q: "q \<noteq> []" and other: "occurrences q q' = 0"
  shows "occurrences q (L @ (nl # q' @ [nl, nl]) @ R) = occurrences q L + occurrences q R"
proof -
  have "occurrences q (L @ (nl # q' @ [nl, nl]) @ R) = occurrences q (L @ nl # (q' @ nl # ([] @ nl # R)))"
    by simp
  also have "\<dots> = occurrences q L + (occurrences q q' + (occurrences q [] + occurrences q R))"
    by (simp only: occurrences_split [OF nl q])
  also have "\<dots> = occurrences q L + occurrences q R"
    using q by (simp add: other)
  finally show ?thesis .
qed


lemma header_banner_once:
  assumes "occurrences ''// Declaration of class wrapper'' X = 0"
    and "occurrences ''// Declaration of class wrapper'' F = 0"
  shows "occurrences classWrapHeaderBanner (classWrapHeaderBanner @ X @ classWrapFooterBanner @ F) = 1"
proof -
  let ?q = "''// Declaration of class wrapper''"
  let ?q' = "''// close class wrapper''"
  have nl: "CHR 0x0A \<notin> set ?q" and q: "?q \<noteq> []" and other: "occurrences ?q ?q' = 0"
    by simp_all
  have "occurrences ?q (X @ (CHR 0x0A # ?q' @ [CHR 0x0A, CHR 0x0A]) @ F) = 0"
    by (simp only: occurrences_skip_banner [OF nl q other] assms)
  from occurrences_banner_once [OF nl q _ this, of "[]"] show ?thesis
    by (simp add: classWrapHeaderBanner_def classWrapFooterBanner_def)
qed

lemma footer_banner_once:
  assumes "occurrences ''// close class wrapper'' X = 0"
    and "occurrences ''// close class wrapper'' F = 0"
  shows "occurrences classWrapFooterBanner (classWrapHeaderBanner @ X @ classWrapFooterBanner @ F) = 1"
proof -
  let ?q = "''// close class wrapper''"
  let ?q' = "''// Declaration of class wrapper''"
  have nl: "CHR 0x0A \<notin> set ?q" and q: "?q \<noteq> []" and other: "occurrences ?q ?q' = 0"
    by simp_all
  have "occurrences ?q ([] @ (CHR 0x0A # ?q' @ [CHR 0x0A, CHR 0x0A]) @ X) = 0"
    by (simp only: occurrences_skip_banner [OF nl q other] assms) simp
  from occurrences_banner_once [OF nl q this assms(2)] show ?thesis
    by (simp add: classWrapHeaderBanner_def classWrapFooterBanner_def)
qed

lemma fold_add3DTexture_params:
  "m_classWrapFunctionParams (fold (add3DTexture U lang) ts w) =
     m_classWrapFunctionParams w @
     concat (map (\<lambda>t. [(getTexType U lang 3 ''float'', t3_textureName t),
                        (''sampler'', getSamplerName U (t3_textureName t))]) ts)"
  by (induction ts arbitrary: w) (simp_all add: add3DTexture_def addToFunctionParameter_def Let_def)

lemma fold_addTexture_params:
  "m_classWrapFunctionParams (fold (addTexture U lang) ts w) =
     m_classWrapFunctionParams w @
     concat (map (\<lambda>t. [(getTexType U lang (if tx_height t > 1 then 2 else 1) ''float'',
                          tx_textureName t),
                        (''sampler'', getSamplerName U (tx_textureName t))]) ts)"
  by (induction ts arbitrary: w) (simp_all add: addTexture_def addToFunctionParameter_def Let_def)

lemma setLanguage_new_Metal: "setLanguage GPU_LANGUAGE_MSL_METAL new_Impl = Some metal_fresh"
  by (simp add: setLanguage_def metal_fresh_def new_Impl_def)

lemma setLanguage_new_OSL: "setLanguage LANGUAGE_OSL_1 new_Impl = Some osl_fresh"
  by (simp add: setLanguage_def osl_fresh_def new_Impl_def)

lemma finalize_OSL_twice:
  assumes "m_language s = LANGUAGE_OSL_1"
  shows "\<exists>s1 s2. finalize U a b s = Some s1 \<and> finalize U a' b' s1 = Some s2 \<and>
     m_declarations s2 =
       GpuShaderText_string U 0 (OSL_kw (m_functionName s)) @
       GpuShaderText_string U 0 (OSL_kw (m_functionName s)) @ m_declarations s \<and>
     m_functionFooter s2 =
       m_functionFooter s @ GpuShaderText_string U 0 (OSL_kw1 (m_functionName s)) @
       GpuShaderText_string U 0 (OSL_kw1 (m_functionName s)) \<and>
     getShaderText s2 =
       m_declarations s2 @ m_helperMethods s @ m_functionHeader s @ m_functionBody s @
       m_functionFooter s2"
proof -
  from finalize_OSL_result [OF assms, of U a b] obtain s1 where
    s1: "finalize U a b s = Some s1" "m_language s1 = LANGUAGE_OSL_1"
      "m_functionName s1 = m_functionName s"
      "m_declarations s1 = GpuShaderText_string U 0 (OSL_kw (m_functionName s)) @ m_declarations s"
      "m_helperMethods s1 = m_helperMethods s" "m_functionHeader s1 = m_functionHeader s"
      "m_functionBody s1 = m_functionBody s"
      "m_functionFooter s1 =
         m_functionFooter s @ GpuShaderText_string U 0 (OSL_kw1 (m_functionName s))"
    by blast
  from finalize_OSL_result [OF s1(2), of U a' b'] obtain s2 where
    s2: "finalize U a' b' s1 = Some s2"
      "m_declarations s2 = GpuShaderText_string U 0 (OSL_kw (m_functionName s1)) @ m_declarations s1"
      "m_helperMethods s2 = m_helperMethods s1" "m_functionHeader s2 = m_functionHeader s1"
      "m_functionBody s2 = m_functionBody s1"
      "m_functionFooter s2 =
         m_functionFooter s1 @ GpuShaderText_string U 0 (OSL_kw1 (m_functionName s1))"
      "getShaderText s2 = m_declarations s2 @ m_helperMethods s2 @ m_functionHeader s2 @
         m_functionBody s2 @ m_functionFooter s2"
    by blast
  have "m_declarations s2 =
       GpuShaderText_string U 0 (OSL_kw (m_functionName s)) @
       GpuShaderText_string U 0 (OSL_kw (m_functionName s)) @ m_declarations s"
    by (simp only: s2(2) s1(3) s1(4))
  moreover have "m_functionFooter s2 =
       m_functionFooter s @ GpuShaderText_string U 0 (OSL_kw1 (m_functionName s)) @
       GpuShaderText_string U 0 (OSL_kw1 (m_functionName s))"
    by (simp only: s2(6) s1(3) s1(8) append_assoc)
  moreover have "getShaderText s2 =
       m_declarations s2 @ m_helperMethods s @ m_functionHeader s @ m_functionBody s @
       m_functionFooter s2"
    by (simp only: s2(7) s2(3) s2(4) s2(5) s1(5) s1(6) s1(7))
  ultimately show ?thesis
    using s1(1) s2(1) by blast
qed

lemma OSL_kw1_sample:
  "GpuShaderText_string sample 0 (OSL_kw1 ''OCIOMain'') =
     [CHR 0x0A] @ ''outColor = OCIOMain(inColor);'' @ [CHR 0x0A] @ ''}'' @ [CHR 0x0A]"
  by (simp add: OSL_kw1_def sample_def)

subsection \<open>The cache identifier\<close>

text \<open>
  C1, as amended. \<^verbatim>\<open>getCacheID()\<close> assembles the identity only when the cached string is
  empty: then it returns, and stores, the language name, the function name, the resource
  prefix, the pixel name, the resource count in decimal and the content hash of the shader
  text, in this order, with one space between them and nothing else. When the cached
  string is not empty it returns that string and leaves the state alone.
\<close>

theorem getCacheID_composite:
  "getCacheID U s =
     (if m_cacheID s = []
      then (let c = GpuLanguageToString U (m_language s) @ '' '' @ m_functionName s @ '' '' @
                    m_resourcePrefix s @ '' '' @ m_pixelName s @ '' '' @
                    string_of_nat (unat (m_numResources s)) @ '' '' @ m_shaderCodeID s
            in (c, s\<lparr>m_cacheID := c\<rparr>))
      else (m_cacheID s, s))"
  by (simp add: getCacheID_def composeCacheID_def Let_def)

text \<open>
  C1 as stated fails: on a new descriptor, \<^verbatim>\<open>getCacheID()\<close>, \<^verbatim>\<open>getNextResourceIndex()\<close>,
  \<^verbatim>\<open>getCacheID()\<close> returns the identity with the resource count 0 while the count is 1
  (\<^verbatim>\<open>getNextResourceIndex\<close> does not clear the cached string).
\<close>

theorem getCacheID_stale_counterexample:
  "fst (getCacheID sample (snd (getNextResourceIndex (snd (getCacheID sample
          (new_Impl :: (unit, unit) Impl)))))) = ''glsl_1.2 OCIOMain ocio outColor 0 '' \<and>
   composeCacheID sample (snd (getNextResourceIndex (snd (getCacheID sample
          (new_Impl :: (unit, unit) Impl))))) = ''glsl_1.2 OCIOMain ocio outColor 1 ''"
  by (simp add: getCacheID_def composeCacheID_def getNextResourceIndex_def new_Impl_def
      sample_def string_of_nat_small digit_def Let_def)

text \<open>
  C10. The identity does not depend on the unique id: \<^verbatim>\<open>setUniqueID\<close> clears the cached
  string, the identity computed afterwards is the same for every unique id, two states
  that differ in \<open>m_uid\<close> only have the same identity, and an identity computed, then
  invalidated by \<^verbatim>\<open>setUniqueID\<close>, is computed again with the same value.
\<close>

theorem getCacheID_ignores_uid:
  "m_cacheID (setUniqueID uid s) = [] \<and>
   fst (getCacheID U (setUniqueID uid s)) = fst (getCacheID U (setUniqueID uid' s)) \<and>
   fst (getCacheID U (s\<lparr>m_uid := u\<rparr>)) = fst (getCacheID U s) \<and>
   fst (getCacheID U (setUniqueID uid (snd (getCacheID U (setUniqueID uid' s))))) =
     fst (getCacheID U (setUniqueID uid' s))"
  by (simp add: getCacheID_def composeCacheID_def setUniqueID_def Let_def)

subsection \<open>clone\<close>

text \<open>
  C3, as amended. The clone has the configuration and the five fragment buffers of the
  original and an empty shader text and content hash, and it has the original's cached
  identity string: \<^verbatim>\<open>operator=\<close> copies \<open>m_cacheID\<close>.
\<close>

theorem clone_copies:
  "m_uid (clone s) = m_uid s \<and> m_language (clone s) = m_language s \<and>
   m_functionName (clone s) = m_functionName s \<and>
   m_resourcePrefix (clone s) = m_resourcePrefix s \<and>
   m_pixelName (clone s) = m_pixelName s \<and> m_numResources (clone s) = m_numResources s \<and>
   m_declarations (clone s) = m_declarations s \<and>
   m_helperMethods (clone s) = m_helperMethods s \<and>
   m_functionHeader (clone s) = m_functionHeader s \<and>
   m_functionBody (clone s) = m_functionBody s \<and>
   m_functionFooter (clone s) = m_functionFooter s \<and>
   getShaderText (clone s) = [] \<and> m_shaderCodeID (clone s) = [] \<and>
   m_cacheID (clone s) = m_cacheID s"
  by (simp add: clone_def assign_def getShaderText_def)

text \<open>
  C3 as stated fails: the clone of a new descriptor whose identity has been read starts
  with that identity cached, not with an empty one.
\<close>

theorem clone_cacheID_counterexample:
  "m_cacheID (clone (snd (getCacheID sample (new_Impl :: (unit, unit) Impl)))) =
     ''glsl_1.2 OCIOMain ocio outColor 0 ''"
  by (simp add: clone_def assign_def getCacheID_def composeCacheID_def new_Impl_def
      sample_def string_of_nat_small digit_def Let_def)

subsection \<open>The name setters\<close>

text \<open>
  C6 fails on the code: \<^verbatim>\<open>Replace(name, "__", "_")\<close> passes over the name once, so of
  three underscores it replaces the first two and keeps the third, and the stored name
  is "__". Names whose runs of underscores have length two are collapsed, as in the
  spec's example.
\<close>

theorem setFunctionName_three_underscores:
  "setFunctionName (Some ''___'') s = Some (s\<lparr>m_functionName := ''__'', m_cacheID := []\<rparr>) \<and>
   setResourcePrefix (Some ''___'') s =
     Some (s\<lparr>m_resourcePrefix := ''__'', m_cacheID := []\<rparr>) \<and>
   setPixelName (Some ''___'') s = Some (s\<lparr>m_pixelName := ''__'', m_cacheID := []\<rparr>) \<and>
   setFunctionName (Some ''foo__bar__baz'') s =
     Some (s\<lparr>m_functionName := ''foo_bar_baz'', m_cacheID := []\<rparr>)"
  by (simp add: setFunctionName_def setResourcePrefix_def setPixelName_def)

subsection \<open>The assembled text\<close>

lemma finalize_metal_fresh:
  "finalize sample [] [] (metal_fresh :: ('t, 'v) Impl) = Some metal_finalized"
  by (simp add: finalize_def finalize_Metal_def getLanguage_def Let_def metal_fresh_def
      metal_finalized_def wrapper_finalized_def new_Impl_def new_MetalClassWrappingInterface_def
      WriteShaderClassWrapperHeader_def WriteShaderClassWrapperFooter_def
      addToHeaderShaderCode_def addToFooterShaderCode_def GetClassWrapperName_def
      createShaderText_def sample_def classWrapHeaderBanner_def classWrapFooterBanner_def
      string_of_nat.simps digit_def)




subsection \<open>Dynamic properties\<close>

lemma findType_distinct:
  "distinct (map getType ps) \<Longrightarrow> q \<in> set ps \<Longrightarrow> findType ps (getType q) = Some q"
  by (induction ps) (auto simp add: image_iff)

lemma findType_missing: "t \<notin> getType ` set ps \<Longrightarrow> findType ps t = None"
  by (induction ps) auto

lemma getDynamicProperty_index_nth:
  assumes "length (m_dynamicProperties s) < 2 ^ 32" and "i < length (m_dynamicProperties s)"
  shows "getDynamicProperty_index (word_of_nat i) s = Returns (m_dynamicProperties s ! i) s"
proof -
  have i: "unat (word_of_nat i :: 32 word) = i"
    using assms by (intro unat_word_of_nat32) simp
  have n: "unat (word_of_nat (length (m_dynamicProperties s)) :: 32 word) =
      length (m_dynamicProperties s)"
    using assms(1) by (rule unat_word_of_nat32)
  have "\<not> word_of_nat (length (m_dynamicProperties s)) \<le> (word_of_nat i :: 32 word)"
    using assms(2) by (simp only: word_le_nat_alt i n not_le)
  then show ?thesis
    by (simp only: getDynamicProperty_index_def if_False i)
qed

lemma getDynamicProperty_index_beyond:
  assumes "length (m_dynamicProperties s) < 2 ^ 32" and "length (m_dynamicProperties s) \<le> unat i"
  shows "getDynamicProperty_index i s =
     Throws (DynamicPropertiesAccessError (unat i) (length (m_dynamicProperties s))) s"
proof -
  have n: "unat (word_of_nat (length (m_dynamicProperties s)) :: 32 word) =
      length (m_dynamicProperties s)"
    using assms(1) by (rule unat_word_of_nat32)
  have "word_of_nat (length (m_dynamicProperties s)) \<le> i"
    using assms(2) by (simp only: word_le_nat_alt n)
  then show ?thesis
    by (simp only: getDynamicProperty_index_def if_True)
qed

lemma addDynamicProperty_new_Impl:
  "addDynamicProperty (Some \<lparr>getType = 1 :: nat, dp_value = ()\<rparr>) new_Impl = Returns () one_property"
  by (simp add: addDynamicProperty_def hasDynamicProperty_def new_Impl_def one_property_def)

lemma reachable_properties_retrievable:
  assumes "q \<in> set (m_dynamicProperties (snd (run U cs new_Impl)))"
  shows "getDynamicProperty_type (getType q) (snd (run U cs new_Impl)) =
     Returns q (snd (run U cs new_Impl))"
proof -
  have "distinct (map getType (m_dynamicProperties (new_Impl :: ('a, 'b) Impl)))"
    by (simp add: new_Impl_def)
  from findType_distinct [OF run_types_distinct [OF this] assms] show ?thesis
    by (simp add: getDynamicProperty_type_def)
qed

text \<open>
  C7. \<^verbatim>\<open>addDynamicProperty\<close> throws exactly when a property of the same type is in the
  list, and then the state is the one before the call. Otherwise the property is
  appended, and afterwards \<^verbatim>\<open>getDynamicProperty(type)\<close> returns it for its type and
  \<^verbatim>\<open>getDynamicProperty(index)\<close> returns it at the index that was the count before the call;
  every property registered before is still returned at its own index and, the types in
  the list being distinct (as they are in every state a descriptor reaches), for its own
  type; an index beyond the list and a type not in it throw. The index is an
  \<^verbatim>\<open>unsigned\<close>, so the list must be shorter than \<open>2 ^ 32 - 1\<close>.
\<close>

theorem addDynamicProperty_duplicate:
  "addDynamicProperty (Some p) s =
     (if getType p \<in> getType ` set (m_dynamicProperties s)
      then Throws (DynamicPropertyAlreadyHere (getType p)) s
      else Returns () (s\<lparr>m_dynamicProperties := m_dynamicProperties s @ [p]\<rparr>)) \<and>
   (getType p \<notin> getType ` set (m_dynamicProperties s) \<longrightarrow>
      getDynamicProperty_type (getType p)
          (s\<lparr>m_dynamicProperties := m_dynamicProperties s @ [p]\<rparr>) =
        Returns p (s\<lparr>m_dynamicProperties := m_dynamicProperties s @ [p]\<rparr>) \<and>
      (length (m_dynamicProperties s) < 2 ^ 32 - 1 \<longrightarrow>
         getDynamicProperty_index (getNumDynamicProperties s)
             (s\<lparr>m_dynamicProperties := m_dynamicProperties s @ [p]\<rparr>) =
           Returns p (s\<lparr>m_dynamicProperties := m_dynamicProperties s @ [p]\<rparr>) \<and>
         (\<forall>i \<le> length (m_dynamicProperties s).
            getDynamicProperty_index (word_of_nat i)
                (s\<lparr>m_dynamicProperties := m_dynamicProperties s @ [p]\<rparr>) =
              Returns ((m_dynamicProperties s @ [p]) ! i)
                (s\<lparr>m_dynamicProperties := m_dynamicProperties s @ [p]\<rparr>)) \<and>
         (\<forall>i. length (m_dynamicProperties s) < unat i \<longrightarrow>
            getDynamicProperty_index i
                (s\<lparr>m_dynamicProperties := m_dynamicProperties s @ [p]\<rparr>) =
              Throws (DynamicPropertiesAccessError (unat i)
                        (Suc (length (m_dynamicProperties s))))
                (s\<lparr>m_dynamicProperties := m_dynamicProperties s @ [p]\<rparr>))) \<and>
      (distinct (map getType (m_dynamicProperties s)) \<longrightarrow>
         (\<forall>q \<in> set (m_dynamicProperties s @ [p]).
            getDynamicProperty_type (getType q)
                (s\<lparr>m_dynamicProperties := m_dynamicProperties s @ [p]\<rparr>) =
              Returns q (s\<lparr>m_dynamicProperties := m_dynamicProperties s @ [p]\<rparr>))) \<and>
      (\<forall>t. t \<notin> getType ` set (m_dynamicProperties s @ [p]) \<longrightarrow>
         getDynamicProperty_type t (s\<lparr>m_dynamicProperties := m_dynamicProperties s @ [p]\<rparr>) =
           Throws DynamicPropertyNotFound
             (s\<lparr>m_dynamicProperties := m_dynamicProperties s @ [p]\<rparr>)))"
proof -
  let ?ps = "m_dynamicProperties s"
  let ?s' = "s\<lparr>m_dynamicProperties := ?ps @ [p]\<rparr>"
  have add: "addDynamicProperty (Some p) s =
     (if getType p \<in> getType ` set ?ps
      then Throws (DynamicPropertyAlreadyHere (getType p)) s else Returns () ?s')"
    by (simp add: addDynamicProperty_def hasDynamicProperty_def hasType_iff)
  have new_type: "getDynamicProperty_type (getType p) ?s' = Returns p ?s'"
    if "getType p \<notin> getType ` set ?ps"
    using that by (simp add: getDynamicProperty_type_def findType_append_new hasType_iff)
  have new_index: "getDynamicProperty_index (getNumDynamicProperties s) ?s' = Returns p ?s'"
    if "length ?ps < 2 ^ 32 - 1"
    using that by (simp add: getNumDynamicProperties_def getDynamicProperty_index_last)
  have all_index: "getDynamicProperty_index (word_of_nat i) ?s' = Returns ((?ps @ [p]) ! i) ?s'"
    if "length ?ps < 2 ^ 32 - 1" and "i \<le> length ?ps" for i
    using getDynamicProperty_index_nth [of ?s' i] that by simp
  have no_index: "getDynamicProperty_index i ?s' =
      Throws (DynamicPropertiesAccessError (unat i) (Suc (length ?ps))) ?s'"
    if "length ?ps < 2 ^ 32 - 1" and "length ?ps < unat i" for i
    using getDynamicProperty_index_beyond [of ?s' i] that by simp
  have all_type: "getDynamicProperty_type (getType q) ?s' = Returns q ?s'"
    if "getType p \<notin> getType ` set ?ps" and "distinct (map getType ?ps)"
      and "q \<in> set (?ps @ [p])" for q
  proof -
    have "distinct (map getType (?ps @ [p]))"
      using that(1,2) by simp
    from findType_distinct [OF this that(3)] show ?thesis
      by (simp add: getDynamicProperty_type_def)
  qed
  have no_type: "getDynamicProperty_type t ?s' = Throws DynamicPropertyNotFound ?s'"
    if "t \<notin> getType ` set (?ps @ [p])" for t
    using findType_missing [OF that] by (simp add: getDynamicProperty_type_def)
  show ?thesis
    using add new_type new_index all_index no_index all_type no_type by blast
qed

text \<open>
  Two properties of distinct types registered on a new descriptor: both are returned by
  type and by index, a third type and a third index throw, and so does registering the
  first type again.
\<close>

theorem addDynamicProperty_duplicate_witness:
  "addDynamicProperty (Some \<lparr>getType = 2 :: nat, dp_value = ()\<rparr>) one_property =
     Returns () two_properties \<and>
   getDynamicProperty_type 1 two_properties = Returns \<lparr>getType = 1, dp_value = ()\<rparr> two_properties \<and>
   getDynamicProperty_type 2 two_properties = Returns \<lparr>getType = 2, dp_value = ()\<rparr> two_properties \<and>
   getDynamicProperty_index 0 two_properties = Returns \<lparr>getType = 1, dp_value = ()\<rparr> two_properties \<and>
   getDynamicProperty_index 1 two_properties = Returns \<lparr>getType = 2, dp_value = ()\<rparr> two_properties \<and>
   getDynamicProperty_index 2 two_properties =
     Throws (DynamicPropertiesAccessError 2 2) two_properties \<and>
   getDynamicProperty_type 3 two_properties = Throws DynamicPropertyNotFound two_properties \<and>
   addDynamicProperty (Some \<lparr>getType = 1 :: nat, dp_value = ()\<rparr>) two_properties =
     Throws (DynamicPropertyAlreadyHere 1) two_properties"
proof -
  let ?p1 = "\<lparr>getType = 1 :: nat, dp_value = ()\<rparr>"
  let ?p2 = "\<lparr>getType = 2 :: nat, dp_value = ()\<rparr>"
  have ps: "m_dynamicProperties one_property = [?p1]"
    and two: "one_property\<lparr>m_dynamicProperties := [?p1] @ [?p2]\<rparr> = two_properties"
    and ps2: "m_dynamicProperties two_properties = [?p1, ?p2]"
    by (simp_all add: one_property_def two_properties_def)
  have new: "getType ?p2 \<notin> getType ` set (m_dynamicProperties one_property)"
    and short: "length (m_dynamicProperties one_property) < 2 ^ 32 - 1"
    and distinct: "distinct (map getType (m_dynamicProperties one_property))"
    by (simp_all add: ps)
  note inst = addDynamicProperty_duplicate [of ?p2 one_property, unfolded ps two]
  have add: "addDynamicProperty (Some ?p2) one_property = Returns () two_properties"
    using inst by simp
  have t1: "getDynamicProperty_type 1 two_properties = Returns ?p1 two_properties"
    and t2: "getDynamicProperty_type 2 two_properties = Returns ?p2 two_properties"
    using inst by auto
  have i0: "getDynamicProperty_index 0 two_properties = Returns ?p1 two_properties"
    using inst [THEN conjunct2] by (auto dest: spec [of _ "0 :: nat"])
  have i1: "getDynamicProperty_index 1 two_properties = Returns ?p2 two_properties"
    using inst [THEN conjunct2] by (auto dest: spec [of _ "1 :: nat"])
  have i2: "getDynamicProperty_index 2 two_properties =
      Throws (DynamicPropertiesAccessError 2 2) two_properties"
    using inst [THEN conjunct2] by (auto dest: spec [of _ "2 :: 32 word"])
  have t3: "getDynamicProperty_type 3 two_properties = Throws DynamicPropertyNotFound two_properties"
    using inst [THEN conjunct2] by (auto dest: spec [of _ "3 :: nat"])
  have dup: "addDynamicProperty (Some ?p1) two_properties =
      Throws (DynamicPropertyAlreadyHere 1) two_properties"
    using addDynamicProperty_duplicate [of ?p1 two_properties] by (simp add: ps2)
  from add t1 t2 i0 i1 i2 t3 dup show ?thesis
    by (intro conjI)
qed

subsection \<open>finalize\<close>

text \<open>
  C2, as amended. \<^verbatim>\<open>finalize()\<close> has no guard against a second call: whenever a call
  returns, the next call on the same descriptor returns as well. For OSL both calls
  return and the second runs the pre-pass again, so the declarations begin with the
  synthesized preamble twice and the footer ends with the synthesized closing lines twice,
  and the shader text is assembled from these buffers.
\<close>

theorem finalize_twice_not_rejected:
  "(finalize U a b s \<noteq> None \<longrightarrow>
      Option.bind (finalize U a b s) (finalize U a' b') \<noteq> None) \<and>
   (m_language s = LANGUAGE_OSL_1 \<longrightarrow>
     (\<exists>s1 s2. finalize U a b s = Some s1 \<and> finalize U a' b' s1 = Some s2 \<and>
        m_declarations s2 =
          GpuShaderText_string U 0 (OSL_kw (m_functionName s)) @
          GpuShaderText_string U 0 (OSL_kw (m_functionName s)) @ m_declarations s \<and>
        m_functionFooter s2 =
          m_functionFooter s @ GpuShaderText_string U 0 (OSL_kw1 (m_functionName s)) @
          GpuShaderText_string U 0 (OSL_kw1 (m_functionName s)) \<and>
        getShaderText s2 =
          m_declarations s2 @ m_helperMethods s @ m_functionHeader s @ m_functionBody s @
          m_functionFooter s2))"
proof -
  have "Option.bind (finalize U a b s) (finalize U a' b') \<noteq> None" if "finalize U a b s \<noteq> None"
  proof -
    from that obtain s1 where s1: "finalize U a b s = Some s1" by blast
    from finalize_again [OF s1, of a' b'] obtain s2 where "finalize U a' b' s1 = Some s2" ..
    then show ?thesis by (simp add: s1)
  qed
  then show ?thesis
    using finalize_OSL_twice [of s U a b a' b'] by blast
qed

theorem finalize_twice_not_rejected_witness:
  "finalize sample [] [] (osl_fresh :: (unit, unit) Impl) \<noteq> None \<and>
   m_language (osl_fresh :: (unit, unit) Impl) = LANGUAGE_OSL_1 \<and>
   Option.bind (finalize sample [] [] (osl_fresh :: (unit, unit) Impl)) (finalize sample [] []) \<noteq> None \<and>
   (\<exists>s1 s2. finalize sample [] [] (osl_fresh :: (unit, unit) Impl) = Some s1 \<and>
      finalize sample [] [] s1 = Some s2 \<and>
      m_declarations s2 =
        GpuShaderText_string sample 0 (OSL_kw ''OCIOMain'') @
        GpuShaderText_string sample 0 (OSL_kw ''OCIOMain'') \<and>
      m_functionFooter s2 =
        [CHR 0x0A] @ ''outColor = OCIOMain(inColor);'' @ [CHR 0x0A] @ ''}'' @ [CHR 0x0A] @
        [CHR 0x0A] @ ''outColor = OCIOMain(inColor);'' @ [CHR 0x0A] @ ''}'' @ [CHR 0x0A])"
proof -
  let ?s = "osl_fresh :: (unit, unit) Impl"
  have lang: "m_language ?s = LANGUAGE_OSL_1"
    and name: "m_functionName ?s = ''OCIOMain''"
    and empty: "m_declarations ?s = []" "m_functionFooter ?s = []"
    by (simp_all add: osl_fresh_def new_Impl_def)
  note inst = finalize_twice_not_rejected [of sample "[]" "[]" ?s "[]" "[]"]
  from inst lang
  obtain s1 s2 where run: "finalize sample [] [] ?s = Some s1" "finalize sample [] [] s1 = Some s2"
    and "m_declarations s2 =
        GpuShaderText_string sample 0 (OSL_kw (m_functionName ?s)) @
        GpuShaderText_string sample 0 (OSL_kw (m_functionName ?s)) @ m_declarations ?s"
    and "m_functionFooter s2 =
        m_functionFooter ?s @ GpuShaderText_string sample 0 (OSL_kw1 (m_functionName ?s)) @
        GpuShaderText_string sample 0 (OSL_kw1 (m_functionName ?s))"
    by blast
  then have both: "finalize sample [] [] ?s = Some s1 \<and> finalize sample [] [] s1 = Some s2 \<and>
      m_declarations s2 =
        GpuShaderText_string sample 0 (OSL_kw ''OCIOMain'') @
        GpuShaderText_string sample 0 (OSL_kw ''OCIOMain'') \<and>
      m_functionFooter s2 =
        [CHR 0x0A] @ ''outColor = OCIOMain(inColor);'' @ [CHR 0x0A] @ ''}'' @ [CHR 0x0A] @
        [CHR 0x0A] @ ''outColor = OCIOMain(inColor);'' @ [CHR 0x0A] @ ''}'' @ [CHR 0x0A]"
    by (simp only: name empty OSL_kw1_sample append_Nil append_Nil2 append_assoc simp_thms)
  have first: "finalize sample [] [] ?s \<noteq> None"
    by (simp only: run) simp
  with inst have "Option.bind (finalize sample [] [] ?s) (finalize sample [] []) \<noteq> None"
    by blast
  with first lang both show ?thesis
    by blast
qed

text \<open>
  C2 as stated fails: on a new OSL descriptor the second \<^verbatim>\<open>finalize()\<close> returns, with
  the closing lines twice in the footer and the preamble twice in the declarations.
\<close>

theorem finalize_twice_counterexample:
  "map_option m_functionFooter
     (Option.bind (finalize sample [] [] (osl_fresh :: (unit, unit) Impl)) (finalize sample [] [])) =
     Some ([CHR 0x0A] @ ''outColor = OCIOMain(inColor);'' @ [CHR 0x0A] @ ''}'' @ [CHR 0x0A] @
           [CHR 0x0A] @ ''outColor = OCIOMain(inColor);'' @ [CHR 0x0A] @ ''}'' @ [CHR 0x0A]) \<and>
   map_option m_declarations
     (Option.bind (finalize sample [] [] (osl_fresh :: (unit, unit) Impl)) (finalize sample [] [])) =
     Some (GpuShaderText_string sample 0 (OSL_kw ''OCIOMain'') @
           GpuShaderText_string sample 0 (OSL_kw ''OCIOMain''))"
proof -
  let ?s = "osl_fresh :: (unit, unit) Impl"
  have lang: "m_language ?s = LANGUAGE_OSL_1"
    and name: "m_functionName ?s = ''OCIOMain''"
    and empty: "m_declarations ?s = []" "m_functionFooter ?s = []"
    by (simp_all add: osl_fresh_def new_Impl_def)
  from finalize_OSL_twice [OF lang, of sample "[]" "[]" "[]" "[]"]
  obtain s1 s2 where run: "finalize sample [] [] ?s = Some s1" "finalize sample [] [] s1 = Some s2"
    and "m_declarations s2 =
        GpuShaderText_string sample 0 (OSL_kw (m_functionName ?s)) @
        GpuShaderText_string sample 0 (OSL_kw (m_functionName ?s)) @ m_declarations ?s"
    and "m_functionFooter s2 =
        m_functionFooter ?s @ GpuShaderText_string sample 0 (OSL_kw1 (m_functionName ?s)) @
        GpuShaderText_string sample 0 (OSL_kw1 (m_functionName ?s))"
    by blast
  then have "m_declarations s2 =
        GpuShaderText_string sample 0 (OSL_kw ''OCIOMain'') @
        GpuShaderText_string sample 0 (OSL_kw ''OCIOMain'')"
    and "m_functionFooter s2 =
        [CHR 0x0A] @ ''outColor = OCIOMain(inColor);'' @ [CHR 0x0A] @ ''}'' @ [CHR 0x0A] @
        [CHR 0x0A] @ ''outColor = OCIOMain(inColor);'' @ [CHR 0x0A] @ ''}'' @ [CHR 0x0A]"
    by (simp_all only: name empty OSL_kw1_sample append_Nil append_Nil2 append_assoc)
  then show ?thesis
    by (simp only: run bind.bind_lunit option.map simp_thms)
qed

text \<open>
  C5, as amended. A Metal descriptor whose wrapper is as \<^verbatim>\<open>setLanguage\<close> made it (the
  first \<^verbatim>\<open>finalize()\<close>), one 3D texture \<open>t3\<close> and two textures \<open>t1\<close>, \<open>t2\<close>:
  \<^verbatim>\<open>finalize()\<close> returns, and the wrapper's parameter list has six entries, the texture
  type and name and then \<^verbatim>\<open>"sampler"\<close> and \<^verbatim>\<open>getSamplerName(textureName)\<close> (not the sampler
  name the texture was registered with) for \<open>t3\<close>, for \<open>t1\<close> and for \<open>t2\<close>, in this
  order. When the text helper reports a class wrapper for Metal, the shader text is the
  header banner, the class declaration rendered by the text helper, the five buffers, the
  footer banner and the closing code rendered by the text helper: each banner is written
  once, and it occurs exactly once in the text when its comment line occurs nowhere in
  the text that the helper and the buffers supply. When the helper reports no class
  wrapper, the shader text is the five buffers and has no banner.
\<close>

theorem finalize_Metal_parameters:
  fixes U :: "'d services" and s :: "('t, 'v) Impl" and t3 :: Texture3D and t1 t2 :: Texture
  defines "ps \<equiv>
     [(getTexType U GPU_LANGUAGE_MSL_METAL 3 ''float'', t3_textureName t3),
      (''sampler'', getSamplerName U (t3_textureName t3)),
      (getTexType U GPU_LANGUAGE_MSL_METAL (if tx_height t1 > 1 then 2 else 1) ''float'',
         tx_textureName t1),
      (''sampler'', getSamplerName U (tx_textureName t1)),
      (getTexType U GPU_LANGUAGE_MSL_METAL (if tx_height t2 > 1 then 2 else 1) ''float'',
         tx_textureName t2),
      (''sampler'', getSamplerName U (tx_textureName t2))]"
  defines "X \<equiv>
     flushLine U 0 (classWrapperHeader U ''OCIO'' (TextureInfoFromParams U ps)) @
     flushLine U 0 [] @
     m_declarations s @ m_helperMethods s @ m_functionHeader s @ m_functionBody s @
     m_functionFooter s"
  defines "F \<equiv>
     flushLine U 0 [] @
     flushLine U 0 (classWrapperFooter U ''OCIO'' (TextureInfoFromParams U ps) (m_functionName s))"
  assumes lang: "m_language s = GPU_LANGUAGE_MSL_METAL"
    and fresh: "m_classWrappingInterface s = Owned new_MetalClassWrappingInterface"
  shows "\<exists>s' w. finalize U [t3] [t1, t2] s = Some s' \<and>
     m_classWrappingInterface s' = Owned w \<and>
     m_classWrapFunctionParams w = ps \<and>
     length (m_classWrapFunctionParams w) = 6 \<and>
     (hasClassWrapper U GPU_LANGUAGE_MSL_METAL \<longrightarrow>
        getShaderText s' = classWrapHeaderBanner @ X @ classWrapFooterBanner @ F \<and>
        (occurrences ''// Declaration of class wrapper'' X = 0 \<and>
         occurrences ''// Declaration of class wrapper'' F = 0 \<longrightarrow>
           occurrences classWrapHeaderBanner (getShaderText s') = 1) \<and>
        (occurrences ''// close class wrapper'' X = 0 \<and>
         occurrences ''// close class wrapper'' F = 0 \<longrightarrow>
           occurrences classWrapFooterBanner (getShaderText s') = 1)) \<and>
     (\<not> hasClassWrapper U GPU_LANGUAGE_MSL_METAL \<longrightarrow>
        getShaderText s' =
          m_declarations s @ m_helperMethods s @ m_functionHeader s @ m_functionBody s @
          m_functionFooter s)"
proof -
  have "\<exists>s' w. finalize U [t3] [t1, t2] s = Some s' \<and>
     m_classWrappingInterface s' = Owned w \<and>
     m_classWrapFunctionParams w = ps \<and>
     (hasClassWrapper U GPU_LANGUAGE_MSL_METAL \<longrightarrow>
        getShaderText s' = classWrapHeaderBanner @ X @ classWrapFooterBanner @ F) \<and>
     (\<not> hasClassWrapper U GPU_LANGUAGE_MSL_METAL \<longrightarrow>
        getShaderText s' =
          m_declarations s @ m_helperMethods s @ m_functionHeader s @ m_functionBody s @
          m_functionFooter s)"
    using lang fresh
    by (simp add: ps_def X_def F_def finalize_def finalize_Metal_def getLanguage_def Let_def
        add3DTexture_def addTexture_def addToFunctionParameter_def
        new_MetalClassWrappingInterface_def WriteShaderClassWrapperHeader_def
        WriteShaderClassWrapperFooter_def addToHeaderShaderCode_def addToFooterShaderCode_def
        GetClassWrapperName_def createShaderText_def getShaderText_def)
  then obtain s' w where res: "finalize U [t3] [t1, t2] s = Some s'"
      "m_classWrappingInterface s' = Owned w" "m_classWrapFunctionParams w = ps"
    and shader: "hasClassWrapper U GPU_LANGUAGE_MSL_METAL \<longrightarrow>
        getShaderText s' = classWrapHeaderBanner @ X @ classWrapFooterBanner @ F"
    and plain: "\<not> hasClassWrapper U GPU_LANGUAGE_MSL_METAL \<longrightarrow>
        getShaderText s' =
          m_declarations s @ m_helperMethods s @ m_functionHeader s @ m_functionBody s @
          m_functionFooter s"
    by blast
  have six: "length (m_classWrapFunctionParams w) = 6"
    by (simp add: res(3) ps_def)
  have hdr: "occurrences ''// Declaration of class wrapper'' X = 0 \<and>
      occurrences ''// Declaration of class wrapper'' F = 0 \<longrightarrow>
        occurrences classWrapHeaderBanner
          (classWrapHeaderBanner @ X @ classWrapFooterBanner @ F) = 1"
    using header_banner_once [of X F] by blast
  have ftr: "occurrences ''// close class wrapper'' X = 0 \<and>
      occurrences ''// close class wrapper'' F = 0 \<longrightarrow>
        occurrences classWrapFooterBanner
          (classWrapHeaderBanner @ X @ classWrapFooterBanner @ F) = 1"
    using footer_banner_once [of X F] by blast
  have "hasClassWrapper U GPU_LANGUAGE_MSL_METAL \<longrightarrow>
        getShaderText s' = classWrapHeaderBanner @ X @ classWrapFooterBanner @ F \<and>
        (occurrences ''// Declaration of class wrapper'' X = 0 \<and>
         occurrences ''// Declaration of class wrapper'' F = 0 \<longrightarrow>
           occurrences classWrapHeaderBanner (getShaderText s') = 1) \<and>
        (occurrences ''// close class wrapper'' X = 0 \<and>
         occurrences ''// close class wrapper'' F = 0 \<longrightarrow>
           occurrences classWrapFooterBanner (getShaderText s') = 1)"
  proof
    assume "hasClassWrapper U GPU_LANGUAGE_MSL_METAL"
    with shader have eq: "getShaderText s' = classWrapHeaderBanner @ X @ classWrapFooterBanner @ F"
      by (rule_tac mp)
    from hdr ftr show "getShaderText s' = classWrapHeaderBanner @ X @ classWrapFooterBanner @ F \<and>
        (occurrences ''// Declaration of class wrapper'' X = 0 \<and>
         occurrences ''// Declaration of class wrapper'' F = 0 \<longrightarrow>
           occurrences classWrapHeaderBanner (getShaderText s') = 1) \<and>
        (occurrences ''// close class wrapper'' X = 0 \<and>
         occurrences ''// close class wrapper'' F = 0 \<longrightarrow>
           occurrences classWrapFooterBanner (getShaderText s') = 1)"
      by (simp only: eq simp_thms)
  qed
  with res six plain
  have "finalize U [t3] [t1, t2] s = Some s' \<and>
     m_classWrappingInterface s' = Owned w \<and>
     m_classWrapFunctionParams w = ps \<and>
     length (m_classWrapFunctionParams w) = 6 \<and>
     (hasClassWrapper U GPU_LANGUAGE_MSL_METAL \<longrightarrow>
        getShaderText s' = classWrapHeaderBanner @ X @ classWrapFooterBanner @ F \<and>
        (occurrences ''// Declaration of class wrapper'' X = 0 \<and>
         occurrences ''// Declaration of class wrapper'' F = 0 \<longrightarrow>
           occurrences classWrapHeaderBanner (getShaderText s') = 1) \<and>
        (occurrences ''// close class wrapper'' X = 0 \<and>
         occurrences ''// close class wrapper'' F = 0 \<longrightarrow>
           occurrences classWrapFooterBanner (getShaderText s') = 1)) \<and>
     (\<not> hasClassWrapper U GPU_LANGUAGE_MSL_METAL \<longrightarrow>
        getShaderText s' =
          m_declarations s @ m_helperMethods s @ m_functionHeader s @ m_functionBody s @
          m_functionFooter s)"
    by (intro conjI)
  then show ?thesis
    by (intro exI)
qed

text \<open>The same on \<open>sample\<close>, for a 3D texture, a 1D texture and a 2D texture.\<close>

theorem finalize_Metal_parameters_witness:
  "m_language (metal_fresh :: (unit, unit) Impl) = GPU_LANGUAGE_MSL_METAL \<and>
   m_classWrappingInterface (metal_fresh :: (unit, unit) Impl) =
     Owned new_MetalClassWrappingInterface \<and>
   hasClassWrapper sample GPU_LANGUAGE_MSL_METAL \<and>
   (\<exists>s' w. finalize sample [lut3d] [lut1d, lut2d] (metal_fresh :: (unit, unit) Impl) = Some s' \<and>
      m_classWrappingInterface s' = Owned w \<and>
      m_classWrapFunctionParams w =
        [(''texture3d<float>'', ''lut3d''), (''sampler'', ''lut3dSampler''),
         (''texture1d<float>'', ''lut1d''), (''sampler'', ''lut1dSampler''),
         (''texture2d<float>'', ''lut2d''), (''sampler'', ''lut2dSampler'')] \<and>
      getShaderText s' =
        classWrapHeaderBanner @ ''struct OCIO {'' @ [CHR 0x0A, CHR 0x0A] @
        classWrapFooterBanner @ [CHR 0x0A] @ ''};'' @ [CHR 0x0A] \<and>
      occurrences classWrapHeaderBanner (getShaderText s') = 1 \<and>
      occurrences classWrapFooterBanner (getShaderText s') = 1)"
proof -
  let ?s = "metal_fresh :: (unit, unit) Impl"
  have lang: "m_language ?s = GPU_LANGUAGE_MSL_METAL"
    and fresh: "m_classWrappingInterface ?s = Owned new_MetalClassWrappingInterface"
    and wrap: "hasClassWrapper sample GPU_LANGUAGE_MSL_METAL"
    by (simp_all add: metal_fresh_def sample_def)
  have buffers: "m_declarations ?s = []" "m_helperMethods ?s = []" "m_functionHeader ?s = []"
      "m_functionBody ?s = []" "m_functionFooter ?s = []" "m_functionName ?s = ''Display''"
    by (simp_all add: metal_fresh_def new_Impl_def)
  have types: "getTexType sample GPU_LANGUAGE_MSL_METAL 3 ''float'' = ''texture3d<float>''"
      "getTexType sample GPU_LANGUAGE_MSL_METAL 2 ''float'' = ''texture2d<float>''"
      "getTexType sample GPU_LANGUAGE_MSL_METAL (Suc 0) ''float'' = ''texture1d<float>''"
    by (simp_all add: sample_def string_of_nat_small digit_def)
  have names: "getSamplerName sample ''lut3d'' = ''lut3dSampler''"
      "getSamplerName sample ''lut1d'' = ''lut1dSampler''"
      "getSamplerName sample ''lut2d'' = ''lut2dSampler''"
    by (simp_all add: sample_def)
  have lines: "\<And>infos. flushLine sample 0 (classWrapperHeader sample ''OCIO'' infos) =
        ''struct OCIO {'' @ [CHR 0x0A]"
      "\<And>infos name. flushLine sample 0 (classWrapperFooter sample ''OCIO'' infos name) =
        ''};'' @ [CHR 0x0A]"
      "flushLine sample 0 [] = [CHR 0x0A]"
    by (simp_all add: sample_def)
  have textures: "t3_textureName lut3d = ''lut3d''" "tx_textureName lut1d = ''lut1d''"
      "tx_textureName lut2d = ''lut2d''" "tx_height lut1d = 1" "tx_height lut2d = 17"
    by (simp_all add: lut3d_def lut1d_def lut2d_def)
  have free: "occurrences ''// Declaration of class wrapper'' (''struct OCIO {'' @ [CHR 0x0A, CHR 0x0A]) = 0"
      "occurrences ''// Declaration of class wrapper'' ([CHR 0x0A] @ ''};'' @ [CHR 0x0A]) = 0"
      "occurrences ''// close class wrapper'' (''struct OCIO {'' @ [CHR 0x0A, CHR 0x0A]) = 0"
      "occurrences ''// close class wrapper'' ([CHR 0x0A] @ ''};'' @ [CHR 0x0A]) = 0"
    by simp_all
  from finalize_Metal_parameters [OF lang fresh, of sample lut3d lut1d lut2d] wrap
  obtain s' w where "finalize sample [lut3d] [lut1d, lut2d] ?s = Some s'"
     "m_classWrappingInterface s' = Owned w"
     "m_classWrapFunctionParams w =
        [(''texture3d<float>'', ''lut3d''), (''sampler'', ''lut3dSampler''),
         (''texture1d<float>'', ''lut1d''), (''sampler'', ''lut1dSampler''),
         (''texture2d<float>'', ''lut2d''), (''sampler'', ''lut2dSampler'')]"
     "getShaderText s' =
        classWrapHeaderBanner @ ''struct OCIO {'' @ [CHR 0x0A, CHR 0x0A] @
        classWrapFooterBanner @ [CHR 0x0A] @ ''};'' @ [CHR 0x0A]"
     "occurrences classWrapHeaderBanner (getShaderText s') = 1"
     "occurrences classWrapFooterBanner (getShaderText s') = 1"
    using free by (auto simp add: buffers types names lines textures)
  then show ?thesis
    using lang fresh wrap by blast
qed

text \<open>
  C5 as stated fails. A second \<^verbatim>\<open>finalize()\<close> appends the six entries again and leaves
  twelve; a function body that holds the text of the header banner leaves it twice in the
  shader text; and the sampler entry of the 3D texture registered with the sampler name
  "sampler3d" is \<^verbatim>\<open>("sampler", "lut3dSampler")\<close>.
\<close>

theorem finalize_Metal_parameters_counterexample:
  "map_option (length \<circ> m_classWrapFunctionParams)
     (Option.bind
        (Option.bind (finalize sample [lut3d] [lut1d, lut2d] (metal_fresh :: (unit, unit) Impl))
           (finalize sample [lut3d] [lut1d, lut2d]))
        (deref \<circ> m_classWrappingInterface)) = Some 12 \<and>
   map_option (occurrences classWrapHeaderBanner \<circ> getShaderText)
     (finalize sample [lut3d] [lut1d, lut2d]
        (addToFunctionShaderCode (Some classWrapHeaderBanner)
           (metal_fresh :: (unit, unit) Impl))) = Some 2 \<and>
   t3_samplerName lut3d = ''sampler3d'' \<and>
   map_option m_classWrapFunctionParams
     (Option.bind (finalize sample [lut3d] [lut1d, lut2d] (metal_fresh :: (unit, unit) Impl))
        (deref \<circ> m_classWrappingInterface)) =
     Some [(''texture3d<float>'', ''lut3d''), (''sampler'', ''lut3dSampler''),
           (''texture1d<float>'', ''lut1d''), (''sampler'', ''lut1dSampler''),
           (''texture2d<float>'', ''lut2d''), (''sampler'', ''lut2dSampler'')]"
proof -
  have types: "getTexType sample GPU_LANGUAGE_MSL_METAL 3 ''float'' = ''texture3d<float>''"
      "getTexType sample GPU_LANGUAGE_MSL_METAL 2 ''float'' = ''texture2d<float>''"
      "getTexType sample GPU_LANGUAGE_MSL_METAL (Suc 0) ''float'' = ''texture1d<float>''"
    by (simp_all add: sample_def string_of_nat_small digit_def)
  have names: "\<And>n. getSamplerName sample n = n @ ''Sampler''"
    by (simp add: sample_def)
  have lines: "\<And>infos. flushLine sample 0 (classWrapperHeader sample ''OCIO'' infos) =
        ''struct OCIO {'' @ [CHR 0x0A]"
      "\<And>infos name. flushLine sample 0 (classWrapperFooter sample ''OCIO'' infos name) =
        ''};'' @ [CHR 0x0A]"
      "flushLine sample 0 [] = [CHR 0x0A]"
      "hasClassWrapper sample GPU_LANGUAGE_MSL_METAL"
    by (simp_all add: sample_def)
  have textures: "t3_textureName lut3d = ''lut3d''" "tx_textureName lut1d = ''lut1d''"
      "tx_textureName lut2d = ''lut2d''" "tx_height lut1d = 1" "tx_height lut2d = 17"
      "t3_samplerName lut3d = ''sampler3d''"
    by (simp_all add: lut3d_def lut1d_def lut2d_def)
  have once: "finalize sample [lut3d] [lut1d, lut2d] (metal_fresh :: (unit, unit) Impl) =
      Some (metal_fresh
        \<lparr>m_classWrappingInterface := Owned
           \<lparr>m_classWrapHeader = classWrapHeaderBanner @ ''struct OCIO {'' @ [CHR 0x0A, CHR 0x0A],
            m_classWrapFooter = classWrapFooterBanner @ [CHR 0x0A] @ ''};'' @ [CHR 0x0A],
            m_classWrapFunctionParams =
              [(''texture3d<float>'', ''lut3d''), (''sampler'', ''lut3dSampler''),
               (''texture1d<float>'', ''lut1d''), (''sampler'', ''lut1dSampler''),
               (''texture2d<float>'', ''lut2d''), (''sampler'', ''lut2dSampler'')]\<rparr>,
         m_shaderCode := classWrapHeaderBanner @ ''struct OCIO {'' @ [CHR 0x0A, CHR 0x0A] @
            classWrapFooterBanner @ [CHR 0x0A] @ ''};'' @ [CHR 0x0A],
         m_shaderCodeID := CacheIDHash sample
            (classWrapHeaderBanner @ ''struct OCIO {'' @ [CHR 0x0A, CHR 0x0A] @
             classWrapFooterBanner @ [CHR 0x0A] @ ''};'' @ [CHR 0x0A]) 78\<rparr>)"
    by (simp add: finalize_def finalize_Metal_def getLanguage_def Let_def metal_fresh_def
      new_Impl_def new_MetalClassWrappingInterface_def add3DTexture_def addTexture_def
      addToFunctionParameter_def types names lines textures
      WriteShaderClassWrapperHeader_def WriteShaderClassWrapperFooter_def
      addToHeaderShaderCode_def addToFooterShaderCode_def GetClassWrapperName_def
      createShaderText_def classWrapHeaderBanner_def classWrapFooterBanner_def)
  have twice: "map_option (length \<circ> m_classWrapFunctionParams)
     (Option.bind
        (Option.bind (finalize sample [lut3d] [lut1d, lut2d] (metal_fresh :: (unit, unit) Impl))
           (finalize sample [lut3d] [lut1d, lut2d]))
        (deref \<circ> m_classWrappingInterface)) = Some 12"
    by (simp add: once)
      (simp add: finalize_def finalize_Metal_def getLanguage_def Let_def metal_fresh_def
      new_Impl_def add3DTexture_def addTexture_def
      addToFunctionParameter_def types names lines textures
      WriteShaderClassWrapperHeader_def WriteShaderClassWrapperFooter_def
      addToHeaderShaderCode_def addToFooterShaderCode_def GetClassWrapperName_def
      createShaderText_def classWrapHeaderBanner_def classWrapFooterBanner_def deref_def)
  have banner: "map_option (occurrences classWrapHeaderBanner \<circ> getShaderText)
     (finalize sample [lut3d] [lut1d, lut2d]
        (addToFunctionShaderCode (Some classWrapHeaderBanner)
           (metal_fresh :: (unit, unit) Impl))) = Some 2"
    by (simp add: finalize_def finalize_Metal_def getLanguage_def Let_def metal_fresh_def
      new_Impl_def new_MetalClassWrappingInterface_def add3DTexture_def addTexture_def
      addToFunctionParameter_def types names lines textures addToFunctionShaderCode_def
      WriteShaderClassWrapperHeader_def WriteShaderClassWrapperFooter_def
      addToHeaderShaderCode_def addToFooterShaderCode_def GetClassWrapperName_def
      createShaderText_def getShaderText_def classWrapHeaderBanner_def classWrapFooterBanner_def)
  have params: "map_option m_classWrapFunctionParams
     (Option.bind (finalize sample [lut3d] [lut1d, lut2d] (metal_fresh :: (unit, unit) Impl))
        (deref \<circ> m_classWrappingInterface)) =
     Some [(''texture3d<float>'', ''lut3d''), (''sampler'', ''lut3dSampler''),
           (''texture1d<float>'', ''lut1d''), (''sampler'', ''lut1dSampler''),
           (''texture2d<float>'', ''lut2d''), (''sampler'', ''lut2dSampler'')]"
    by (simp add: once deref_def)
  from twice banner textures(6) params show ?thesis
    by (intro conjI)
qed

subsection \<open>The banners of the buffers\<close>

text \<open>
  C8. Any number of \<^verbatim>\<open>addToDeclareShaderCode\<close> calls, with null, empty or other
  arguments, leaves in the declarations what was there (the banner, if nothing was
  there) followed by the arguments in order: the banner is written by the first call on
  an empty buffer and by no other. The same holds for the helper methods with their
  banner. The function header, body and footer get the arguments and no banner.
\<close>

theorem banners_once:
  "m_declarations (fold addToDeclareShaderCode cs s) =
     (if cs = [] then m_declarations s
      else (if m_declarations s = [] then declarationsBanner else m_declarations s) @
           concat (map (\<lambda>c. case c of None \<Rightarrow> [] | Some t \<Rightarrow> t) cs)) \<and>
   m_helperMethods (fold addToHelperShaderCode cs s) =
     (if cs = [] then m_helperMethods s
      else (if m_helperMethods s = [] then helperMethodsBanner else m_helperMethods s) @
           concat (map (\<lambda>c. case c of None \<Rightarrow> [] | Some t \<Rightarrow> t) cs)) \<and>
   m_functionHeader (fold addToFunctionHeaderShaderCode cs s) =
     m_functionHeader s @ concat (map (\<lambda>c. case c of None \<Rightarrow> [] | Some t \<Rightarrow> t) cs) \<and>
   m_functionBody (fold addToFunctionShaderCode cs s) =
     m_functionBody s @ concat (map (\<lambda>c. case c of None \<Rightarrow> [] | Some t \<Rightarrow> t) cs) \<and>
   m_functionFooter (fold addToFunctionFooterShaderCode cs s) =
     m_functionFooter s @ concat (map (\<lambda>c. case c of None \<Rightarrow> [] | Some t \<Rightarrow> t) cs)"
  by (simp only: fold_addToDeclareShaderCode fold_addToHelperShaderCode
      fold_addToFunctionHeaderShaderCode fold_addToFunctionShaderCode
      fold_addToFunctionFooterShaderCode simp_thms)

theorem banners_once_witness:
  "m_declarations (fold addToDeclareShaderCode [None, Some ''a;'', Some [], Some ''b;'']
       (new_Impl :: (unit, unit) Impl)) =
     [CHR 0x0A] @ ''// Declaration of all variables'' @ [CHR 0x0A, CHR 0x0A] @ ''a;b;'' \<and>
   m_helperMethods (fold addToHelperShaderCode [Some [], None, Some ''h;'']
       (new_Impl :: (unit, unit) Impl)) =
     [CHR 0x0A] @ ''// Declaration of all helper methods'' @ [CHR 0x0A, CHR 0x0A] @ ''h;'' \<and>
   m_functionBody (fold addToFunctionShaderCode [None, Some ''a;'', Some [], Some ''b;'']
       (new_Impl :: (unit, unit) Impl)) = ''a;b;''"
  using banners_once [of "[None, Some ''a;'', Some [], Some ''b;'']" "new_Impl :: (unit, unit) Impl"]
    banners_once [of "[Some [], None, Some ''h;'']" "new_Impl :: (unit, unit) Impl"]
  by (simp add: new_Impl_def declarationsBanner_def helperMethodsBanner_def)

subsection \<open>Resource indices\<close>

text \<open>
  C9, as amended. Whatever calls a new descriptor receives, the indices that its
  \<^verbatim>\<open>getNextResourceIndex()\<close> calls hand out are \<open>0, 1, 2, \<dots>\<close> taken modulo \<open>2 ^ 32\<close>, one
  for each such call that is reached; as long as there are at most \<open>2 ^ 32\<close> of them they
  are the numbers \<open>0, \<dots>, N - 1\<close> themselves, increasing and without repetition.
\<close>

theorem resource_indices_sequence:
  "indices (fst (run U cs new_Impl)) =
     map word_of_nat [0..<length (indices (fst (run U cs new_Impl)))] \<and>
   (length (indices (fst (run U cs new_Impl))) \<le> 2 ^ 32 \<longrightarrow>
      map unat (indices (fst (run U cs new_Impl))) =
        [0..<length (indices (fst (run U cs new_Impl)))] \<and>
      distinct (indices (fst (run U cs new_Impl)))) \<and>
   (length (fst (run U cs new_Impl)) = length cs \<longrightarrow>
      length (indices (fst (run U cs new_Impl))) = count_list cs GetNextResourceIndex)"
proof -
  let ?is = "indices (fst (run U cs (new_Impl :: ('a, 'b) Impl)))"
  have from0: "?is = map (\<lambda>k. (0 :: 32 word) + word_of_nat k) [0..<length ?is]"
    using run_indices_from [of U cs "new_Impl :: ('a, 'b) Impl"] by (simp add: new_Impl_def)
  have nat: "map unat ?is = [0..<length ?is]" if "length ?is \<le> 2 ^ 32"
    using indices_from_zero [OF from0 that] .
  have "distinct ?is" if "length ?is \<le> 2 ^ 32"
  proof -
    have "distinct (map unat ?is)"
      by (simp only: nat [OF that] distinct_upt)
    then show ?thesis
      by (simp only: distinct_map)
  qed
  moreover have "?is = map word_of_nat [0..<length ?is]"
    using from0 by simp
  ultimately show ?thesis
    using nat run_indices_count [of U cs new_Impl] by blast
qed

theorem resource_indices_sequence_witness:
  "fst (run sample
      [GetNextResourceIndex, SetUniqueID None, GetNextResourceIndex,
       AddToFunctionShaderCode (Some ''x''), GetCacheID, GetNextResourceIndex]
      (new_Impl :: (unit, unit) Impl)) =
     [Index 0, Void, Index 1, Void, Text ''glsl_1.2 OCIOMain ocio outColor 2 '', Index 2] \<and>
   map unat (indices (fst (run sample
      [GetNextResourceIndex, SetUniqueID None, GetNextResourceIndex,
       AddToFunctionShaderCode (Some ''x''), GetCacheID, GetNextResourceIndex]
      (new_Impl :: (unit, unit) Impl)))) = [0..<3] \<and>
   count_list [GetNextResourceIndex, SetUniqueID None, GetNextResourceIndex,
       AddToFunctionShaderCode (Some ''x''), GetCacheID, GetNextResourceIndex :: (unit, unit) call]
     GetNextResourceIndex = 3"
proof -
  let ?cs = "[GetNextResourceIndex, SetUniqueID None, GetNextResourceIndex,
       AddToFunctionShaderCode (Some ''x''), GetCacheID, GetNextResourceIndex] :: (unit, unit) call list"
  have run: "fst (run sample ?cs (new_Impl :: (unit, unit) Impl)) =
     [Index 0, Void, Index 1, Void, Text ''glsl_1.2 OCIOMain ocio outColor 2 '', Index 2]"
    by (simp add: new_Impl_def getNextResourceIndex_def void_def setUniqueID_def
        addToFunctionShaderCode_def getCacheID_def composeCacheID_def sample_def
        string_of_nat_small digit_def Let_def)
  have len: "length (indices (fst (run sample ?cs (new_Impl :: (unit, unit) Impl)))) = 3"
    by (simp only: run) simp
  have le: "length (indices (fst (run sample ?cs (new_Impl :: (unit, unit) Impl)))) \<le> 2 ^ 32"
    by (simp only: len) simp
  from resource_indices_sequence [of sample ?cs, THEN conjunct2, THEN conjunct1, rule_format,
      OF le, THEN conjunct1]
  have "map unat (indices (fst (run sample ?cs (new_Impl :: (unit, unit) Impl)))) = [0..<3]"
    by (simp only: len)
  moreover have "count_list ?cs GetNextResourceIndex = 3"
    by simp
  ultimately show ?thesis
    using run by blast
qed

text \<open>
  C9 as stated fails for \<open>N = 2 ^ 32 + 1\<close>: the counter is an \<^verbatim>\<open>unsigned\<close> and wraps, so
  the last of \<open>2 ^ 32 + 1\<close> calls on a new descriptor hands out 0, as the first did.
\<close>

theorem resource_indices_wrap_counterexample:
  "length (indices (fst (run sample (replicate (2 ^ 32 + 1) GetNextResourceIndex)
       (new_Impl :: (unit, unit) Impl)))) = 2 ^ 32 + 1 \<and>
   indices (fst (run sample (replicate (2 ^ 32 + 1) GetNextResourceIndex)
       (new_Impl :: (unit, unit) Impl))) ! 0 = 0 \<and>
   indices (fst (run sample (replicate (2 ^ 32 + 1) GetNextResourceIndex)
       (new_Impl :: (unit, unit) Impl))) ! (2 ^ 32) = 0"
proof -
  let ?is = "indices (fst (run sample (replicate (2 ^ 32 + 1) GetNextResourceIndex)
       (new_Impl :: (unit, unit) Impl)))"
  have zero: "m_numResources (new_Impl :: (unit, unit) Impl) = 0"
    by (simp add: new_Impl_def)
  have a: "0 < (2::nat) ^ 32 + 1" and b: "(2::nat) ^ 32 < 2 ^ 32 + 1"
    by simp_all
  have "?is ! 0 = m_numResources (new_Impl :: (unit, unit) Impl) + word_of_nat 0"
    by (rule indices_replicate_nth [OF a])
  also have "\<dots> = 0"
    by (simp add: zero)
  finally have first: "?is ! 0 = 0" .
  have "?is ! (2 ^ 32) = m_numResources (new_Impl :: (unit, unit) Impl) + word_of_nat (2 ^ 32)"
    by (rule indices_replicate_nth [OF b])
  also have "\<dots> = 0"
    by (simp add: zero)
  finally have again: "?is ! (2 ^ 32) = 0" .
  have "length ?is = 2 ^ 32 + 1"
    by (rule indices_replicate_length)
  with first again show ?thesis
    by (intro conjI)
qed

end
